theory Spec2Isabelle
  imports Complex_Main
begin

section \<open>Errors raised by the benchmark code\<close>

text \<open>
  The Python sources raise \<^verbatim>\<open>ValueError\<close> themselves; \<^verbatim>\<open>TypeError\<close> and
  \<^verbatim>\<open>AttributeError\<close> are what the interpreter raises when the code unpacks or reads
  an attribute of \<^verbatim>\<open>None\<close>; \<^verbatim>\<open>RuntimeError\<close> is what the torch runtime raises.
  \<^verbatim>\<open>PyError cls msg\<close> is any other exception, of class \<^verbatim>\<open>cls\<close>, that a library or a
  collaborator raises. Every exception carries its message.
\<close>

datatype error =
    ValueError string
  | TypeError string
  | AttributeError string
  | RuntimeError string
  | PyError string string

text \<open>Decimal rendering of a Python integer inside an f-string.\<close>

definition digit_char :: "nat \<Rightarrow> char" where
  "digit_char d = char_of (48 + d)"

function str_nat :: "nat \<Rightarrow> string" where
  "str_nat n = (if n < 10 then [digit_char n] else str_nat (n div 10) @ [digit_char (n mod 10)])"
  by pat_completeness auto
termination
  by (relation "measure id") auto

declare str_nat.simps [simp del]

definition str_int :: "int \<Rightarrow> string" where
  "str_int i = (if i < 0 then CHR ''-'' # str_nat (nat (- i)) else str_nat (nat i))"


section \<open>Token counting: \<^verbatim>\<open>get_meaning_tokens_from_batch\<close>\<close>

text \<open>
  The generated output is a two-dimensional tensor of token ids of shape
  \<^verbatim>\<open>[batch_size, MAX_TEXT_LEN]\<close>. It is modelled by the list of its rows, so
  \<^verbatim>\<open>shape[0]\<close> is the number of rows and the inner loop over
  \<^verbatim>\<open>range(shape[1])\<close> visits the entries of the row from left to right.
\<close>

type_synonym grid = "int list list"

text \<open>
  The inner loop \<^verbatim>\<open>for j in range(generated_output.shape[1])\<close>: the running
  \<^verbatim>\<open>length\<close> grows by one for every entry different from \<^verbatim>\<open>dot_token\<close>.
\<close>

fun row_loop :: "int list \<Rightarrow> int \<Rightarrow> int \<Rightarrow> int" where
  "row_loop [] dot_token len = len"
| "row_loop (x # xs) dot_token len =
     row_loop xs dot_token (if x \<noteq> dot_token then len + 1 else len)"

text \<open>
  The outer loop \<^verbatim>\<open>for i in range(generated_output.shape[0])\<close>: every row starts
  from \<^verbatim>\<open>length = 1\<close> and appends \<^verbatim>\<open>length - input_size\<close> to \<^verbatim>\<open>lengths\<close>.
\<close>

fun batch_loop :: "grid \<Rightarrow> int \<Rightarrow> int \<Rightarrow> int list \<Rightarrow> int list" where
  "batch_loop [] input_size dot_token lengths = lengths"
| "batch_loop (row # rows) input_size dot_token lengths =
     batch_loop rows input_size dot_token (lengths @ [row_loop row dot_token 1 - input_size])"

definition get_meaning_tokens_from_batch :: "grid \<Rightarrow> int \<Rightarrow> int \<Rightarrow> int list" where
  "get_meaning_tokens_from_batch generated_output input_size dot_token =
     (let num_tokens = [];
          lengths = batch_loop generated_output input_size dot_token []
      in num_tokens @ lengths)"

text \<open>The number of entries of a row that are not the filler token.\<close>

definition non_filler :: "int \<Rightarrow> int list \<Rightarrow> int" where
  "non_filler dot_token row = int (length (filter (\<lambda>x. x \<noteq> dot_token) row))"


section \<open>Thread configuration: \<^verbatim>\<open>set_thread_num\<close>\<close>

text \<open>
  The two settings of the torch runtime that the function writes. \<^verbatim>\<open>None\<close> in a
  field means that the runtime still has its default: the setter has not been called.
\<close>

record torch_threads =
  interop_threads :: "int option"
  intraop_threads :: "int option"

text \<open>
  \<^verbatim>\<open>torch.set_num_interop_threads\<close> and \<^verbatim>\<open>torch.set_num_threads\<close> belong to the torch
  library. Both take the number as a C \<^verbatim>\<open>int\<close>: a Python integer outside the range of
  32 bits makes the setter raise, and so does a number that is not positive. The
  number of inter-op threads can be set once only: a call when it has been set
  already raises \<^verbatim>\<open>RuntimeError\<close>. A setter that raises leaves the settings as they
  were. Nothing below depends on the class or the text of the library's exceptions.
\<close>

definition fits_c_int :: "int \<Rightarrow> bool" where
  "fits_c_int n = (- (2 ^ 31) \<le> n \<and> n < 2 ^ 31)"

definition torch_set_num_interop_threads :: "int \<Rightarrow> torch_threads \<Rightarrow> error + torch_threads" where
  "torch_set_num_interop_threads n st =
     (if \<not> fits_c_int n then Inl (RuntimeError ''Overflow when unpacking long'')
      else if n \<le> 0 then Inl (RuntimeError ''set_num_interop_threads expects a positive integer'')
      else if interop_threads st \<noteq> None then
        Inl (RuntimeError ''Error: cannot set number of interop threads after parallel work has started or set_num_interop_threads called'')
      else Inr (st\<lparr>interop_threads := Some n\<rparr>))"

definition torch_set_num_threads :: "int \<Rightarrow> torch_threads \<Rightarrow> error + torch_threads" where
  "torch_set_num_threads n st =
     (if \<not> fits_c_int n then Inl (RuntimeError ''Overflow when unpacking long'')
      else if n \<le> 0 then Inl (RuntimeError ''set_num_threads expects a positive integer'')
      else Inr (st\<lparr>intraop_threads := Some n\<rparr>))"

definition validate :: "int \<Rightarrow> error + unit" where
  "validate num =
     (if num < 0 then Inl (ValueError (''Incorrect thread count: '' @ str_int num)) else Inr ())"

text \<open>
  A thread count comes from the command line as an integer or is \<^verbatim>\<open>None\<close>. The test
  \<^verbatim>\<open>if num_inter_threads:\<close> is Python truthiness: \<^verbatim>\<open>None\<close> and \<^verbatim>\<open>0\<close> skip the
  block.
\<close>

definition truthy_int :: "int option \<Rightarrow> bool" where
  "truthy_int v = (case v of None \<Rightarrow> False | Some n \<Rightarrow> n \<noteq> 0)"

text \<open>One block of \<^verbatim>\<open>set_thread_num\<close>: the validation, then the torch setter.\<close>

definition validate_and_set ::
  "(int \<Rightarrow> torch_threads \<Rightarrow> error + torch_threads) \<Rightarrow> int option \<Rightarrow> torch_threads
     \<Rightarrow> error + torch_threads" where
  "validate_and_set setter num st =
     (if truthy_int num
      then (case validate (the num) of
              Inl e \<Rightarrow> Inl e
            | Inr _ \<Rightarrow> setter (the num) st)
      else Inr st)"

text \<open>
  The result pairs the exception, if one was raised, with the runtime settings at that
  moment: a setting written before the exception stays written.
\<close>

definition set_thread_num ::
  "int option \<Rightarrow> int option \<Rightarrow> torch_threads \<Rightarrow> error option \<times> torch_threads" where
  "set_thread_num num_inter_threads num_intra_threads st =
     (case validate_and_set torch_set_num_interop_threads num_inter_threads st of
        Inl e \<Rightarrow> (Some e, st)
      | Inr st1 \<Rightarrow>
          (case validate_and_set torch_set_num_threads num_intra_threads st1 of
             Inl e \<Rightarrow> (Some e, st1)
           | Inr st2 \<Rightarrow> (None, st2)))"


section \<open>Values, collaborators and the world the engine runs in\<close>

text \<open>
  The engine of \<^verbatim>\<open>inference_pytorch.py\<close> moves objects between collaborators it does
  not look into: the model, tokenizers, tensors, decoded texts. A value is therefore
  the Python expression that produced it: a call of a callable on positional and
  keyword arguments, an attribute, an item, a partial application. What the engine
  itself builds (lists, tuples, \<^verbatim>\<open>None\<close>) is built for real.
\<close>

datatype device = Cpu | Cuda

datatype val =
    PNone
  | PInt int
  | PStr string
  | PList "val list"
  | PTuple "val list"
  | PDict "(string \<times> val) list"
  | Dev device
  | Obj string
  | Imported string
  | Slice nat
  | Attr val string
  | Item val val
  | Call val "val list" "(string \<times> val) list"
  | Partial val "(string \<times> val) list"
  | Unpacked val

text \<open>
  \<^verbatim>\<open>Obj n\<close> is an object that the caller hands to the engine (the model),
  \<^verbatim>\<open>Imported n\<close> is the name \<^verbatim>\<open>n\<close> of a collaborator module, \<^verbatim>\<open>Slice k\<close> is what the
  \<open>k\<close>-th call of \<^verbatim>\<open>get_slice()\<close> returned, \<^verbatim>\<open>Call f args kwargs\<close> is the result of
  \<^verbatim>\<open>f(*args, **kwargs)\<close>, \<^verbatim>\<open>Partial f kwargs\<close> is \<^verbatim>\<open>functools.partial(f, **kwargs)\<close> and
  \<^verbatim>\<open>Unpacked v\<close> stands for the elements of an iterable \<^verbatim>\<open>v\<close> of a collaborator that is
  passed as \<^verbatim>\<open>*v\<close>.
\<close>



text \<open>
  What the engine observes of the outside: readings of the wall clock, batches drawn
  from \<^verbatim>\<open>get_slice\<close>, invocations of the model (or of the generation entry point
  bound to it) and device synchronisations, in the order in which they happen.
\<close>

datatype event = Tick nat | Drawn nat | Invoke val | Synchronize

record world =
  events :: "event list"
  ticks :: nat
  draws :: nat

text \<open>
  The collaborators' answers the engine computes with: the wall clock (the \<open>k\<close>-th
  call of \<^verbatim>\<open>time()\<close> returns \<open>clock k\<close>); the exception, if any, that the evaluation
  of an expression over collaborator objects raises (an import, a call, an attribute
  or item access, an unpacking), given the values of its parts; the truth value of
  a collaborator object; the grid of token ids a generated output holds; and the
  integer a value holds (a tensor size, a length, a constant).
\<close>

record collab =
  clock :: "nat \<Rightarrow> real"
  raises :: "val \<Rightarrow> error option"
  is_true :: "val \<Rightarrow> bool"
  as_grid :: "val \<Rightarrow> grid"
  as_int :: "val \<Rightarrow> int"

type_synonym 'a comp = "world \<Rightarrow> (error + 'a) \<times> world"

definition ret :: "'a \<Rightarrow> 'a comp" where
  "ret x = (\<lambda>w. (Inr x, w))"

definition throw :: "error \<Rightarrow> 'a comp" where
  "throw e = (\<lambda>w. (Inl e, w))"

definition bnd :: "'a comp \<Rightarrow> ('a \<Rightarrow> 'b comp) \<Rightarrow> 'b comp" where
  "bnd m f = (\<lambda>w. case m w of (Inl e, w1) \<Rightarrow> (Inl e, w1) | (Inr x, w1) \<Rightarrow> f x w1)"

definition lift :: "error + 'a \<Rightarrow> 'a comp" where
  "lift r = (\<lambda>w. (r, w))"

text \<open>
  The evaluation of an expression over collaborator objects: it raises what the
  collaborators raise on it and yields the expression as its value otherwise.
\<close>

definition try_eval :: "collab \<Rightarrow> val \<Rightarrow> error + val" where
  "try_eval c v = (case raises c v of Some e \<Rightarrow> Inl e | None \<Rightarrow> Inr v)"

definition attempt :: "collab \<Rightarrow> val \<Rightarrow> val comp" where
  "attempt c v = lift (try_eval c v)"

definition py_time :: "collab \<Rightarrow> real comp" where
  "py_time c = (\<lambda>w. (Inr (clock c (ticks w)),
                     w\<lparr>events := events w @ [Tick (ticks w)], ticks := Suc (ticks w)\<rparr>))"

text \<open>
  \<^verbatim>\<open>get_slice()\<close>, the invocation \<^verbatim>\<open>f(*args, **kwargs)\<close> of the model (or of the
  generation entry point bound to it) and \<^verbatim>\<open>torch.cuda.synchronize()\<close>: each is recorded
  as an event when it starts, and each may raise.
\<close>

definition get_slice :: "collab \<Rightarrow> val comp" where
  "get_slice c = (\<lambda>w. (try_eval c (Slice (draws w)),
                       w\<lparr>events := events w @ [Drawn (draws w)], draws := Suc (draws w)\<rparr>))"

definition invoke :: "collab \<Rightarrow> val \<Rightarrow> val list \<Rightarrow> (string \<times> val) list \<Rightarrow> val comp" where
  "invoke c f args kwargs =
     (\<lambda>w. (try_eval c (Call f args kwargs),
           w\<lparr>events := events w @ [Invoke (Call f args kwargs)]\<rparr>))"

definition cuda_synchronize :: "collab \<Rightarrow> unit comp" where
  "cuda_synchronize c =
     (\<lambda>w. (case raises c (Call (Imported ''torch.cuda.synchronize'') [] []) of
             Some e \<Rightarrow> Inl e | None \<Rightarrow> Inr (),
           w\<lparr>events := events w @ [Synchronize]\<rparr>))"

text \<open>The invocations in a sequence of events, and its clock readings and invocations.\<close>

fun invoked :: "event list \<Rightarrow> val list" where
  "invoked [] = []"
| "invoked (Invoke v # es) = v # invoked es"
| "invoked (e # es) = invoked es"


text \<open>Python truthiness; the collaborators say whether one of their objects is true.\<close>

fun truthy :: "collab \<Rightarrow> val \<Rightarrow> bool" where
  "truthy c PNone = False"
| "truthy c (PInt n) = (n \<noteq> 0)"
| "truthy c (PStr s) = (s \<noteq> [])"
| "truthy c (PList xs) = (xs \<noteq> [])"
| "truthy c (PTuple xs) = (xs \<noteq> [])"
| "truthy c (PDict kvs) = (kvs \<noteq> [])"
| "truthy c v = is_true c v"

text \<open>\<^verbatim>\<open>d[k] = v\<close> on a dictionary kept in insertion order.\<close>

fun set_item :: "(string \<times> val) list \<Rightarrow> string \<Rightarrow> val \<Rightarrow> (string \<times> val) list" where
  "set_item [] k v = [(k, v)]"
| "set_item ((k1, v1) # kvs) k v =
     (if k1 = k then (k, v) # kvs else (k1, v1) # set_item kvs k v)"

text \<open>
  The arguments that \<^verbatim>\<open>f(*v)\<close> passes. The text of Python's message names the callee
  and differs between versions; only the class of the exception is relied on. The
  elements of an iterable of a collaborator are not looked into: \<^verbatim>\<open>Unpacked v\<close> stands
  for them.
\<close>

fun star_args :: "collab \<Rightarrow> val \<Rightarrow> error + val list" where
  "star_args c PNone =
     Inl (TypeError ''argument after * must be an iterable, not NoneType'')"
| "star_args c (PInt n) = Inl (TypeError ''argument after * must be an iterable, not int'')"
| "star_args c (PList xs) = Inr xs"
| "star_args c (PTuple xs) = Inr xs"
| "star_args c v = (case raises c (Unpacked v) of Some e \<Rightarrow> Inl e | None \<Rightarrow> Inr [Unpacked v])"

text \<open>\<^verbatim>\<open>a, b = v\<close> and \<^verbatim>\<open>a, b, c = v\<close>.\<close>

fun unpack2 :: "collab \<Rightarrow> val \<Rightarrow> error + val \<times> val" where
  "unpack2 c PNone = Inl (TypeError ''cannot unpack non-iterable NoneType object'')"
| "unpack2 c (PInt n) = Inl (TypeError ''cannot unpack non-iterable int object'')"
| "unpack2 c (PTuple [a, b]) = Inr (a, b)"
| "unpack2 c (PList [a, b]) = Inr (a, b)"
| "unpack2 c (PTuple xs) = Inl (ValueError ''wrong number of values to unpack'')"
| "unpack2 c (PList xs) = Inl (ValueError ''wrong number of values to unpack'')"
| "unpack2 c v =
     (case raises c (Unpacked v) of
        Some e \<Rightarrow> Inl e
      | None \<Rightarrow> Inr (Item v (PInt 0), Item v (PInt 1)))"

fun unpack3 :: "collab \<Rightarrow> val \<Rightarrow> error + val \<times> val \<times> val" where
  "unpack3 c PNone = Inl (TypeError ''cannot unpack non-iterable NoneType object'')"
| "unpack3 c (PInt n) = Inl (TypeError ''cannot unpack non-iterable int object'')"
| "unpack3 c (PTuple [a, b, d]) = Inr (a, b, d)"
| "unpack3 c (PList [a, b, d]) = Inr (a, b, d)"
| "unpack3 c (PTuple xs) = Inl (ValueError ''wrong number of values to unpack'')"
| "unpack3 c (PList xs) = Inl (ValueError ''wrong number of values to unpack'')"
| "unpack3 c v =
     (case raises c (Unpacked v) of
        Some e \<Rightarrow> Inl e
      | None \<Rightarrow> Inr (Item v (PInt 0), Item v (PInt 1), Item v (PInt 2)))"

definition and_then :: "error + 'a \<Rightarrow> ('a \<Rightarrow> error + 'b) \<Rightarrow> error + 'b" where
  "and_then r f = (case r of Inl e \<Rightarrow> Inl e | Inr x \<Rightarrow> f x)"

text \<open>The task types the command line accepts (\<^verbatim>\<open>choices\<close> of \<^verbatim>\<open>--task\<close>).\<close>

definition task_choices :: "string list" where
  "task_choices =
     [''feedforward'', ''classification'', ''text-to-image'', ''named-entity-recognition'',
      ''yolo_v7'', ''text-generation'', ''batch-text-generation'', ''text-translation'',
      ''speech-to-text'']"



section \<open>The engine: \<^verbatim>\<open>inference_pytorch\<close>\<close>

text \<open>
  \<^verbatim>\<open>[torch.tensor(get_slice()[input_name], device=device) for input_name in input_names]\<close>:
  for every input name in turn a batch is drawn, indexed and turned into a tensor.
\<close>

definition torch_tensor :: "val \<Rightarrow> device \<Rightarrow> val" where
  "torch_tensor data device = Call (Imported ''torch.tensor'') [data] [(''device'', Dev device)]"

fun build_inputs :: "collab \<Rightarrow> device \<Rightarrow> string list \<Rightarrow> val list comp" where
  "build_inputs c device [] = ret []"
| "build_inputs c device (input_name # names) =
     bnd (get_slice c) (\<lambda>s.
     bnd (attempt c (Item s (PStr input_name))) (\<lambda>data.
     bnd (attempt c (torch_tensor data device)) (\<lambda>t.
     bnd (build_inputs c device names) (\<lambda>rest.
     ret (t # rest)))))"

text \<open>
  The tensors built from the batches drawn from number \<open>k\<close> on, one per input name,
  and the events of drawing these batches.
\<close>

fun tensors_from :: "device \<Rightarrow> nat \<Rightarrow> string list \<Rightarrow> val list" where
  "tensors_from device k [] = []"
| "tensors_from device k (input_name # names) =
     torch_tensor (Item (Slice k) (PStr input_name)) device # tensors_from device (Suc k) names"

fun drawn_from :: "nat \<Rightarrow> string list \<Rightarrow> event list" where
  "drawn_from k [] = []"
| "drawn_from k (input_name # names) = Drawn k # drawn_from (Suc k) names"

definition tensor_inputs :: "collab \<Rightarrow> device \<Rightarrow> string list option \<Rightarrow> val list comp" where
  "tensor_inputs c device input_names =
     (case input_names of
        None \<Rightarrow> throw (TypeError ''NoneType object is not iterable'')
      | Some names \<Rightarrow> build_inputs c device names)"

text \<open>The local variables that the first part of \<^verbatim>\<open>inference_pytorch\<close> sets.\<close>

record run_locals =
  s_tokenizer :: val
  s_processor :: val
  s_encodings_dict :: val
  s_input_size :: int
  s_num_tokens :: "int list"
  s_audios_lengths :: "val list"
  s_audio_sampling_rate :: val

definition initial_locals :: run_locals where
  "initial_locals =
     \<lparr>s_tokenizer = PNone, s_processor = PNone, s_encodings_dict = PNone, s_input_size = 0,
      s_num_tokens = [], s_audios_lengths = [], s_audio_sampling_rate = PNone\<rparr>"

text \<open>
  Lines 396 to 430: tokenizer, processor and encodings by task type. An import
  statement is the evaluation of the names it imports, in their order.
\<close>

definition prepare_run :: "collab \<Rightarrow> val \<Rightarrow> string \<Rightarrow> run_locals comp" where
  "prepare_run c model task_type =
     (if task_type \<in> set [''text-generation'', ''batch-text-generation''] then
        bnd (attempt c (Imported ''configs.pytorch_configs.causal_lm_base.create_tokenizer''))
          (\<lambda>create_tokenizer.
        bnd (attempt c (Imported ''configs.pytorch_configs.causal_lm_base.tokenize''))
          (\<lambda>tokenize.
        bnd (attempt c (Call create_tokenizer [Attr model ''name_or_path''] [])) (\<lambda>tokenizer.
        bnd (get_slice c) (\<lambda>s.
        bnd (attempt c (Call tokenize [tokenizer, s] [])) (\<lambda>encodings_dict.
        let st = initial_locals\<lparr>s_tokenizer := tokenizer, s_encodings_dict := encodings_dict\<rparr>
        in if task_type \<in> set [''text-generation''] then
             bnd (attempt c (Call (Attr (Item encodings_dict (PStr ''input_ids'')) ''size'')
                               [PInt 1] [])) (\<lambda>sz.
             ret (st\<lparr>s_input_size := as_int c sz\<rparr>))
           else if task_type \<in> set [''batch-text-generation''] then
             bnd (attempt c (Imported ''configs.onnx_configs.gpt_2.MAX_TEXT_LEN''))
               (\<lambda>max_text_len.
             ret (st\<lparr>s_num_tokens := [] @ [as_int c max_text_len]\<rparr>))
           else ret st)))))
      else if task_type \<in> set [''named-entity-recognition''] then
        bnd (attempt c (Imported ''configs.pytorch_configs.bert_base_ner.create_tokenizer''))
          (\<lambda>create_tokenizer.
        bnd (attempt c (Call create_tokenizer [] [])) (\<lambda>tokenizer.
        ret (initial_locals\<lparr>s_tokenizer := tokenizer\<rparr>)))
      else if task_type \<in> set [''speech-to-text''] then
        bnd (attempt c (Imported
               ''configs.pytorch_configs.speech_to_sequence_base.create_processor''))
          (\<lambda>create_processor.
        bnd (attempt c (Imported
               ''configs.pytorch_configs.speech_to_sequence_base.process_audio''))
          (\<lambda>process_audio.
        bnd (attempt c (Call create_processor [model] [])) (\<lambda>processor.
        bnd (get_slice c) (\<lambda>s.
        bnd (lift (unpack3 c s)) (\<lambda>(waveform, sampling_rate, audio_len).
        bnd (attempt c (Call process_audio [processor, waveform, sampling_rate] []))
          (\<lambda>encodings_dict.
        bnd (attempt c (Attr (Attr processor ''feature_extractor'') ''sampling_rate''))
          (\<lambda>rate.
        ret (initial_locals\<lparr>s_processor := processor,
               s_audios_lengths := [] @ [audio_len],
               s_encodings_dict := encodings_dict,
               s_audio_sampling_rate := rate\<rparr>))))))))
      else ret initial_locals)"

text \<open>
  Lines 438 to 476: the chain of branches between the two clock readings of the
  single-shot path. It yields the output and the token counts. A task type that no
  branch names falls through: the chain has no final \<^verbatim>\<open>else\<close>, and \<^verbatim>\<open>output\<close> keeps its
  initial value \<^verbatim>\<open>None\<close>.
\<close>

definition single_shot_call ::
  "collab \<Rightarrow> val \<Rightarrow> string \<Rightarrow> device \<Rightarrow> run_locals \<Rightarrow> val list \<Rightarrow> (val \<times> int list) comp" where
  "single_shot_call c model task_type device st inputs =
     (if task_type \<in> set [''classification'', ''feedforward''] then
        bnd (invoke c model inputs []) (\<lambda>r.
        bnd (attempt c (Call (Attr (Call (Imported ''torch.nn.functional.softmax'') [r]
                                      [(''dim'', PInt 1)]) ''to'') [PStr ''cpu''] []))
          (\<lambda>output.
        ret (output, s_num_tokens st)))
      else if task_type \<in> set [''text-to-image''] then
        bnd (get_slice c) (\<lambda>s.
        bnd (invoke c model [] [(''prompt'', s)]) (\<lambda>output.
        ret (output, s_num_tokens st)))
      else if task_type \<in> set [''yolo_v7''] then
        bnd (invoke c model inputs []) (\<lambda>r.
        bnd (attempt c (Call (Attr (Item r (PInt 0)) ''to'') [PStr ''cpu''] [])) (\<lambda>output.
        ret (output, s_num_tokens st)))
      else if task_type \<in> set [''text-translation''] then
        bnd (get_slice c) (\<lambda>s.
        bnd (attempt c (Attr model ''translate_batch'')) (\<lambda>translate_batch.
        bnd (invoke c translate_batch [s] []) (\<lambda>output.
        ret (output, s_num_tokens st))))
      else if task_type \<in> set [''named-entity-recognition''] then
        bnd (attempt c (Imported ''configs.pytorch_configs.bert_base_ner.tokenize''))
          (\<lambda>tokenize.
        bnd (attempt c (Imported ''configs.pytorch_configs.bert_base_ner.decode''))
          (\<lambda>decode.
        bnd (get_slice c) (\<lambda>s.
        bnd (attempt c (Call (Attr (Item (Call tokenize [s_tokenizer st, s] [])
                                      (PStr ''input_ids'')) ''to'') [Dev device] []))
          (\<lambda>tokenized_sentence.
        bnd (invoke c model [tokenized_sentence] []) (\<lambda>model_output.
        bnd (attempt c (Call decode [s_tokenizer st, tokenized_sentence, model_output] []))
          (\<lambda>decoded.
        bnd (lift (unpack2 c decoded)) (\<lambda>(tokens, label_indices).
        bnd (attempt c (Call (Imported ''len'') [tokens] [])) (\<lambda>len.
        ret (PTuple [tokens, label_indices], s_num_tokens st @ [as_int c len])))))))))
      else if task_type \<in> set [''text-generation''] then
        bnd (attempt c (Imported ''configs.pytorch_configs.causal_lm_base.generate''))
          (\<lambda>generate.
        bnd (attempt c (Imported ''configs.pytorch_configs.causal_lm_base.decode''))
          (\<lambda>decode.
        bnd (invoke c generate []
               [(''model'', model), (''inputs'', s_encodings_dict st), (''device'', Dev device),
                (''tokenizer'', s_tokenizer st)]) (\<lambda>generated_output.
        bnd (attempt c (Call decode [s_tokenizer st, generated_output] [])) (\<lambda>output.
        bnd (attempt c (Attr generated_output ''shape'')) (\<lambda>shape.
        ret (output,
             s_num_tokens st
               @ get_meaning_tokens_from_batch (as_grid c generated_output)
                   (s_input_size st) 2))))))
      else if task_type \<in> set [''batch-text-generation''] then
        bnd (attempt c (Imported ''configs.onnx_configs.gpt_2.batch_text_generation''))
          (\<lambda>batch_text_generation.
        bnd (attempt c (Imported ''configs.onnx_configs.gpt_2.decode'')) (\<lambda>decode.
        bnd (invoke c batch_text_generation []
               [(''torch_model'', model), (''tokenizer'', s_tokenizer st),
                (''device'', Dev device), (''encodings_dict'', s_encodings_dict st)])
          (\<lambda>model_output.
        bnd (attempt c (Call decode [s_tokenizer st, model_output] [])) (\<lambda>output.
        ret (output, s_num_tokens st)))))
      else if task_type \<in> set [''speech-to-text''] then
        bnd (attempt c (Imported ''configs.pytorch_configs.speech_to_sequence_base.generate''))
          (\<lambda>generate.
        bnd (attempt c (Imported ''configs.pytorch_configs.speech_to_sequence_base.decode''))
          (\<lambda>decode.
        bnd (invoke c generate []
               [(''model'', model), (''inputs'', s_encodings_dict st), (''device'', Dev device),
                (''processor'', s_processor st)]) (\<lambda>generated_output.
        bnd (attempt c (Call decode [s_processor st, generated_output] [])) (\<lambda>output.
        bnd (attempt c (Attr generated_output ''shape'')) (\<lambda>shape.
        ret (output,
             s_num_tokens st
               @ get_meaning_tokens_from_batch (as_grid c generated_output)
                   (s_input_size st) 2))))))
      else ret (PNone, s_num_tokens st))"

text \<open>
  Lines 432 to 479, the branch \<^verbatim>\<open>num_iterations == 1\<close>. The result is the tuple that
  \<^verbatim>\<open>inference_pytorch\<close> returns: output, latencies, token counts, audio lengths and
  audio sampling rate.
\<close>

type_synonym run_result = "val \<times> real list \<times> int list \<times> val list \<times> val"

definition single_shot_inputs ::
  "collab \<Rightarrow> string \<Rightarrow> string list option \<Rightarrow> device \<Rightarrow> val list comp" where
  "single_shot_inputs c task_type input_names device =
     (if task_type \<in> set [''classification'', ''feedforward'', ''yolo_v7'']
      then tensor_inputs c device input_names else ret [])"

definition single_shot ::
  "collab \<Rightarrow> val \<Rightarrow> string \<Rightarrow> string list option \<Rightarrow> device \<Rightarrow> run_locals \<Rightarrow> run_result comp" where
  "single_shot c model task_type input_names device st =
     bnd (single_shot_inputs c task_type input_names device) (\<lambda>inputs.
     bnd (py_time c) (\<lambda>t0.
     bnd (single_shot_call c model task_type device st inputs) (\<lambda>(output, num_tokens).
     bnd (py_time c) (\<lambda>t1.
     ret (output, [] @ [t1 - t0], num_tokens, s_audios_lengths st,
          s_audio_sampling_rate st)))))"


section \<open>One timed iteration: \<^verbatim>\<open>infer_slice\<close> and \<^verbatim>\<open>inference_iteration\<close>\<close>

text \<open>
  The body of \<^verbatim>\<open>infer_slice\<close>. \<^verbatim>\<open>input_kwarg_name\<close> is a string or \<^verbatim>\<open>None\<close>; the test
  \<^verbatim>\<open>if input_kwarg_name:\<close> fails for \<^verbatim>\<open>None\<close> and for the empty string.
\<close>

definition infer_slice_body ::
  "collab \<Rightarrow> device \<Rightarrow> val \<Rightarrow> val \<Rightarrow> string option \<Rightarrow> string \<Rightarrow> val \<Rightarrow> val comp" where
  "infer_slice_body c device inputs model input_kwarg_name task_type tokenizer =
     bnd (if task_type \<in> set [''text-translation'']
          then attempt c (Attr model ''translate_batch'') else ret model) (\<lambda>infer_func.
     bnd (if input_kwarg_name \<noteq> None \<and> the input_kwarg_name \<noteq> [] then
            (let params = [(the input_kwarg_name, inputs)];
                 params = (if truthy c tokenizer
                              \<and> task_type \<notin> set [''named-entity-recognition'']
                           then set_item params ''tokenizer'' tokenizer else params)
             in invoke c infer_func [] params)
          else
            bnd (lift (star_args c inputs)) (\<lambda>args.
            invoke c infer_func args [])) (\<lambda>res.
     bnd (if device = Cuda then cuda_synchronize c else ret ()) (\<lambda>_.
     ret res)))"

text \<open>
  Modelled from the spec: the decorator \<^verbatim>\<open>get_exec_time\<close> of
  \<^verbatim>\<open>inference_tools.loop_tools\<close> is not among the sources. The spec describes it as
  the timer that wraps a single inference call and measures its wall-clock latency;
  the call site unpacks its result as \<^verbatim>\<open>res, exec_time\<close>.
\<close>

definition get_exec_time :: "collab \<Rightarrow> 'a comp \<Rightarrow> ('a \<times> real) comp" where
  "get_exec_time c func =
     bnd (py_time c) (\<lambda>t0.
     bnd func (\<lambda>res.
     bnd (py_time c) (\<lambda>t1.
     ret (res, t1 - t0))))"

definition infer_slice ::
  "collab \<Rightarrow> device \<Rightarrow> val \<Rightarrow> val \<Rightarrow> string option \<Rightarrow> string \<Rightarrow> val \<Rightarrow> (val \<times> real) comp" where
  "infer_slice c device inputs model input_kwarg_name task_type tokenizer =
     get_exec_time c
       (infer_slice_body c device inputs model input_kwarg_name task_type tokenizer)"

text \<open>
  \<^verbatim>\<open>iter_tokens\<close> is \<^verbatim>\<open>None\<close>, the list that \<^verbatim>\<open>get_meaning_tokens_from_batch\<close> returns,
  or the integer \<^verbatim>\<open>len(tokens)\<close>.
\<close>

datatype tokens = NoTokens | TokenList "int list" | TokenCount int

record iteration =
  exec_time :: real
  iter_tokens :: tokens
  audio_length :: val
  audio_sampling_rate :: val

text \<open>
  Lines 516 to 556 of \<^verbatim>\<open>inference_iteration\<close>: the inputs, the keyword name under
  which they are passed, the callable, the audio length and the sampling rate. A task
  type that no branch names (and \<^verbatim>\<open>yolo_v7\<close>) leaves the inputs \<^verbatim>\<open>None\<close>.
\<close>

record plan =
  p_inputs :: val
  p_input_kwarg_name :: "string option"
  p_model :: val
  p_audio_length :: val
  p_audio_sampling_rate :: val

definition build_plan ::
  "collab \<Rightarrow> device \<Rightarrow> string list option \<Rightarrow> val \<Rightarrow> string \<Rightarrow> val \<Rightarrow> val \<Rightarrow> plan comp" where
  "build_plan c device input_names model task_type tokenizer processor =
     (let p0 = \<lparr>p_inputs = PNone, p_input_kwarg_name = None, p_model = model,
                p_audio_length = PNone, p_audio_sampling_rate = PNone\<rparr>;
          generate = Imported ''configs.pytorch_configs.causal_lm_base.generate''
      in bnd (if task_type \<in> set [''text-generation'', ''batch-text-generation''] then
                bnd (attempt c (Imported ''configs.pytorch_configs.causal_lm_base.tokenize''))
                  (\<lambda>tokenize.
                bnd (attempt c generate) (\<lambda>_.
                bnd (get_slice c) (\<lambda>s.
                bnd (attempt c (Call tokenize [tokenizer, s] [])) (\<lambda>inputs.
                ret (p0\<lparr>p_inputs := inputs\<rparr>)))))
              else ret p0) (\<lambda>p.
         if task_type \<in> set [''classification'', ''feedforward''] then
           bnd (tensor_inputs c device input_names) (\<lambda>inputs.
           ret (p\<lparr>p_inputs := PList inputs\<rparr>))
         else if task_type \<in> set [''named-entity-recognition''] then
           bnd (attempt c (Imported ''configs.pytorch_configs.bert_base_ner.tokenize''))
             (\<lambda>tokenize.
           bnd (get_slice c) (\<lambda>s.
           bnd (attempt c (Call (Attr (Item (Call tokenize [tokenizer, s] [])
                                         (PStr ''input_ids'')) ''to'') [Dev device] []))
             (\<lambda>inputs.
           ret (p\<lparr>p_inputs := inputs, p_input_kwarg_name := Some ''input_ids''\<rparr>))))
         else if task_type \<in> set [''text-generation''] then
           ret (p\<lparr>p_model := Partial generate [(''model'', model), (''device'', Dev device)],
                  p_input_kwarg_name := Some ''inputs''\<rparr>)
         else if task_type \<in> set [''speech-to-text''] then
           bnd (attempt c (Imported
                  ''configs.pytorch_configs.speech_to_sequence_base.process_audio''))
             (\<lambda>process_audio.
           bnd (attempt c (Imported
                  ''configs.pytorch_configs.speech_to_sequence_base.generate''))
             (\<lambda>speech_generate.
           bnd (get_slice c) (\<lambda>s.
           bnd (lift (unpack3 c s)) (\<lambda>(waveform, sampling_rate, audio_len).
           bnd (attempt c (Call process_audio [processor, waveform, sampling_rate] []))
             (\<lambda>inputs.
           bnd (attempt c (Attr (Attr processor ''feature_extractor'') ''sampling_rate''))
             (\<lambda>rate.
           ret (p\<lparr>p_audio_length := audio_len,
                  p_inputs := inputs,
                  p_audio_sampling_rate := rate,
                  p_model := Partial speech_generate
                               [(''model'', model), (''device'', Dev device),
                                (''processor'', processor)],
                  p_input_kwarg_name := Some ''inputs''\<rparr>)))))))
         else if task_type \<in> set [''batch-text-generation''] then
           bnd (attempt c (Imported ''configs.onnx_configs.gpt_2.batch_text_generation''))
             (\<lambda>batch_text_generation.
           ret (p\<lparr>p_model := Partial batch_text_generation
                               [(''torch_model'', model), (''tokenizer'', tokenizer),
                                (''device'', Dev device)],
                  p_input_kwarg_name := Some ''encodings_dict''\<rparr>))
         else if task_type \<in> set [''text-to-image''] then
           bnd (get_slice c) (\<lambda>s.
           ret (p\<lparr>p_input_kwarg_name := Some ''prompt'', p_inputs := s\<rparr>))
         else if task_type \<in> set [''text-translation''] then
           bnd (get_slice c) (\<lambda>s.
           ret (p\<lparr>p_input_kwarg_name := Some ''txt'', p_inputs := s\<rparr>))
         else ret p))"

text \<open>Lines 561 to 571: the token count of the iteration.\<close>

definition iteration_tokens ::
  "collab \<Rightarrow> string \<Rightarrow> val \<Rightarrow> val \<Rightarrow> val \<Rightarrow> int \<Rightarrow> tokens comp" where
  "iteration_tokens c task_type tokenizer inputs res input_size =
     bnd (if task_type \<in> set [''text-generation'', ''speech-to-text''] then
            bnd (attempt c (Attr res ''shape'')) (\<lambda>shape.
            ret (TokenList (get_meaning_tokens_from_batch (as_grid c res) input_size 2)))
          else ret NoTokens) (\<lambda>toks.
     if task_type \<in> set [''named-entity-recognition''] then
       bnd (attempt c (Imported ''configs.pytorch_configs.bert_base_ner.decode'')) (\<lambda>decode.
       bnd (attempt c (Call decode [tokenizer, inputs, res] [])) (\<lambda>decoded.
       bnd (lift (unpack2 c decoded)) (\<lambda>(tokens, _).
       bnd (attempt c (Call (Imported ''len'') [tokens] [])) (\<lambda>len.
       ret (TokenCount (as_int c len))))))
     else ret toks)"

definition inference_iteration ::
  "collab \<Rightarrow> device \<Rightarrow> string list option \<Rightarrow> val \<Rightarrow> string \<Rightarrow> val \<Rightarrow> val \<Rightarrow> int
     \<Rightarrow> iteration comp" where
  "inference_iteration c device input_names model task_type tokenizer processor input_size =
     bnd (build_plan c device input_names model task_type tokenizer processor) (\<lambda>p.
     bnd (if device = Cuda then cuda_synchronize c else ret ()) (\<lambda>_.
     bnd (infer_slice c device (p_inputs p) (p_model p) (p_input_kwarg_name p) task_type
            tokenizer) (\<lambda>(res, elapsed).
     bnd (iteration_tokens c task_type tokenizer (p_inputs p) res input_size) (\<lambda>toks.
     ret \<lparr>exec_time = elapsed, iter_tokens = toks,
          audio_length = p_audio_length p,
          audio_sampling_rate = p_audio_sampling_rate p\<rparr>))))"


section \<open>The measurement loop\<close>

record loop_results =
  time_infer :: "real list"
  num_tokens :: "int list"
  audios_lengths :: "val list"
  loop_audio_sampling_rate :: val

text \<open>
  Modelled from the spec: one sample is appended per iteration, in iteration order;
  token counts and audio lengths are flattened sequences and the sampling rate is
  shared by the run.
\<close>

definition add_sample :: "loop_results \<Rightarrow> iteration \<Rightarrow> loop_results" where
  "add_sample acc it =
     acc\<lparr>time_infer := time_infer acc @ [exec_time it],
         num_tokens := num_tokens acc
           @ (case iter_tokens it of NoTokens \<Rightarrow> [] | TokenList ns \<Rightarrow> ns | TokenCount n \<Rightarrow> [n]),
         audios_lengths := audios_lengths acc
           @ (if audio_length it = PNone then [] else [audio_length it]),
         loop_audio_sampling_rate := audio_sampling_rate it\<rparr>"

text \<open>
  Modelled from the spec: the decorator \<^verbatim>\<open>loop_inference\<close> of
  \<^verbatim>\<open>inference_tools.loop_tools\<close> is not among the sources. Following section 4.3 of
  the spec, every pass runs one iteration and appends its sample; the loop ends when
  the configured iteration count is reached or when the wall clock has passed the
  start time plus the configured duration, whichever comes first; a duration of zero
  leaves only the iteration count; the deadline is looked at after an iteration,
  never before the first one; an exception raised by an iteration ends the loop and
  is passed on. A count of zero is never reached, so such a loop runs until the
  deadline. \<open>fuel\<close> bounds the number of passes of the model: the result \<open>None\<close> says
  that the loop was still running when the fuel was used up.
\<close>

fun loop_passes ::
  "collab \<Rightarrow> int \<Rightarrow> int \<Rightarrow> real \<Rightarrow> iteration comp \<Rightarrow> nat \<Rightarrow> nat \<Rightarrow> loop_results \<Rightarrow> world
     \<Rightarrow> ((error + loop_results) \<times> world) option" where
  "loop_passes c num_iterations test_duration start func 0 completed acc w = None"
| "loop_passes c num_iterations test_duration start func (Suc fuel) completed acc w =
     (case func w of
        (Inl e, w1) \<Rightarrow> Some (Inl e, w1)
      | (Inr it, w1) \<Rightarrow>
          (case py_time c w1 of
             (Inl e, w2) \<Rightarrow> Some (Inl e, w2)
           | (Inr now, w2) \<Rightarrow>
               if int (Suc completed) = num_iterations
                  \<or> (test_duration \<noteq> 0 \<and> now > start + real_of_int test_duration)
               then Some (Inr (add_sample acc it), w2)
               else loop_passes c num_iterations test_duration start func fuel (Suc completed)
                      (add_sample acc it) w2))"

definition loop_inference ::
  "collab \<Rightarrow> nat \<Rightarrow> int \<Rightarrow> int \<Rightarrow> iteration comp \<Rightarrow> world
     \<Rightarrow> ((error + loop_results) \<times> world) option" where
  "loop_inference c fuel num_iterations test_duration func w =
     (case py_time c w of
        (Inl e, w1) \<Rightarrow> Some (Inl e, w1)
      | (Inr start, w1) \<Rightarrow>
          loop_passes c num_iterations test_duration start func fuel 0
            \<lparr>time_infer = [], num_tokens = [], audios_lengths = [],
             loop_audio_sampling_rate = PNone\<rparr> w1)"

text \<open>
  \<^verbatim>\<open>inference_pytorch\<close>. \<^verbatim>\<open>get_slice\<close> is the drawing of a batch from the world;
  \<^verbatim>\<open>inference_mode\<close> only selects the torch context the body runs in. In the looped
  branch \<^verbatim>\<open>output\<close> keeps its initial value \<^verbatim>\<open>None\<close>.
\<close>

definition inference_pytorch ::
  "collab \<Rightarrow> nat \<Rightarrow> val \<Rightarrow> int \<Rightarrow> string \<Rightarrow> string list option \<Rightarrow> bool \<Rightarrow> device \<Rightarrow> int
     \<Rightarrow> world \<Rightarrow> ((error + run_result) \<times> world) option" where
  "inference_pytorch c fuel model num_iterations task_type input_names inference_mode device
     test_duration w =
     (case prepare_run c model task_type w of
        (Inl e, w1) \<Rightarrow> Some (Inl e, w1)
      | (Inr st, w1) \<Rightarrow>
          if num_iterations = 1 then
            Some (single_shot c model task_type input_names device st w1)
          else
            (case loop_inference c fuel num_iterations test_duration
                    (inference_iteration c device input_names model task_type
                       (s_tokenizer st) (s_processor st) (s_input_size st)) w1 of
               None \<Rightarrow> None
             | Some (Inl e, w2) \<Rightarrow> Some (Inl e, w2)
             | Some (Inr lr, w2) \<Rightarrow>
                 Some (Inr (PNone, time_infer lr, num_tokens lr, audios_lengths lr,
                            loop_audio_sampling_rate lr), w2)))"

text \<open>
  A collaborator set for running the engine on concrete inputs: the clock advances
  by one second per reading, nothing raises, every object is true.
\<close>

definition unit_clock :: "nat \<Rightarrow> real" where
  "unit_clock k = real k"

definition never_raises :: "val \<Rightarrow> error option" where
  "never_raises v = None"

definition always_true :: "val \<Rightarrow> bool" where
  "always_true v = True"

definition no_grid :: "val \<Rightarrow> grid" where
  "no_grid v = []"

definition no_int :: "val \<Rightarrow> int" where
  "no_int v = 0"

definition stub :: collab where
  "stub = \<lparr>clock = unit_clock, raises = never_raises, is_true = always_true,
           as_grid = no_grid, as_int = no_int\<rparr>"

definition world0 :: world where
  "world0 = \<lparr>events = [], ticks = 0, draws = 0\<rparr>"


section \<open>Formatting: \<^verbatim>\<open>prepare_output\<close>\<close>

text \<open>
  \<^verbatim>\<open>output_names\<close> is \<^verbatim>\<open>None\<close> or a sequence of names; \<^verbatim>\<open>len\<close> and the index \<^verbatim>\<open>[0]\<close>
  are all the function uses of it.
\<close>

definition prepare_output ::
  "collab \<Rightarrow> val \<Rightarrow> string list option \<Rightarrow> string \<Rightarrow> error + val" where
  "prepare_output c result output_names task_type =
     (if output_names = None \<or> length (the output_names) = 0 then
        Inl (ValueError (''The number of output tensors does not match ''
                           @ ''the number of corresponding output names''))
      else if task_type \<in> set [''feedforward''] then Inr (PDict [])
      else if task_type \<in> set [''text-generation'', ''batch-text-generation'', ''yolo_v7'',
                                 ''text-translation'', ''speech-to-text''] then Inr result
      else if task_type \<in> set [''named-entity-recognition''] then
        and_then (try_eval c (Imported
                    ''configs.pytorch_configs.bert_base_ner.get_decode_result''))
          (\<lambda>get_decode_result.
        and_then (unpack2 c result) (\<lambda>(tokens, label_indices).
        try_eval c (Call get_decode_result [tokens, label_indices] [])))
      else if task_type \<in> set [''text-to-image''] then try_eval c (Attr result ''images'')
      else if task_type \<in> set [''classification''] then
        and_then (try_eval c (Call (Attr (Call (Attr result ''detach'') [] []) ''numpy'') [] []))
          (\<lambda>array. Inr (PDict [(hd (the output_names), array)]))
      else Inl (ValueError (''Unsupported task '' @ task_type
                              @ '' to print inference results'')))"

section \<open>Configuration parameters: \<^verbatim>\<open>TensorFlowParameters\<close>\<close>

text \<open>
  A Python string is a sequence of code points. \<^verbatim>\<open>str.split()\<close> without arguments
  cuts at runs of whitespace and yields no empty token.
\<close>

type_synonym ustring = "nat list"

definition isspace :: "nat \<Rightarrow> bool" where
  "isspace cp =
     (cp \<in> set [9, 10, 11, 12, 13, 28, 29, 30, 31, 32, 133, 160, 5760, 8192, 8193, 8194,
                 8195, 8196, 8197, 8198, 8199, 8200, 8201, 8202, 8232, 8233, 8239, 8287,
                 12288])"

fun split_from :: "ustring \<Rightarrow> ustring \<Rightarrow> ustring list" where
  "split_from cur [] = (if cur = [] then [] else [cur])"
| "split_from cur (cp # cps) =
     (if isspace cp then (if cur = [] then split_from [] cps else cur # split_from [] cps)
      else split_from (cur @ [cp]) cps)"

definition str_split :: "ustring \<Rightarrow> ustring list" where
  "str_split s = split_from [] s"

text \<open>
  The checks that \<^verbatim>\<open>TensorFlowParameters\<close> inherits from \<^verbatim>\<open>FrameworkParameters\<close>
  (module \<^verbatim>\<open>config_parser.framework_parameters_parser\<close>) are not among the sources;
  they are parameters of the model.
\<close>

record checks =
  parameter_is_not_none :: "ustring option \<Rightarrow> bool"
  channel_swap_is_correct :: "ustring option \<Rightarrow> bool"
  mean_is_correct :: "ustring option \<Rightarrow> bool"
  float_value_is_correct :: "ustring option \<Rightarrow> bool"
  int_value_is_correct :: "ustring option \<Rightarrow> bool"

text \<open>The loop of \<^verbatim>\<open>_input_shape_is_correct\<close> over the tokens.\<close>

fun shape_tokens_loop :: "checks \<Rightarrow> ustring list \<Rightarrow> bool" where
  "shape_tokens_loop chk [] = True"
| "shape_tokens_loop chk (i # rest) =
     (if \<not> int_value_is_correct chk (Some i) then False else shape_tokens_loop chk rest)"

definition input_shape_is_correct :: "checks \<Rightarrow> ustring option \<Rightarrow> error + bool" where
  "input_shape_is_correct chk input_shape =
     (case input_shape of
        None \<Rightarrow> Inl (AttributeError ''NoneType object has no attribute split'')
      | Some s \<Rightarrow>
          (let shape_check = str_split s
           in if length shape_check \<noteq> 3 then Inr False
              else Inr (shape_tokens_loop chk shape_check)))"

text \<open>
  The condition in the words of the specification: the string splits on whitespace
  into exactly three tokens, each of which passes the integer-value check.
\<close>

definition three_integer_tokens :: "checks \<Rightarrow> ustring \<Rightarrow> bool" where
  "three_integer_tokens chk s =
     (length (str_split s) = 3
      \<and> list_all (\<lambda>t. int_value_is_correct chk (Some t)) (str_split s))"

text \<open>The arguments of the constructor and the fields of the object it builds.\<close>

record tf_args =
  arg_channel_swap :: "ustring option"
  arg_mean :: "ustring option"
  arg_input_scale :: "ustring option"
  arg_input_shape :: "ustring option"
  arg_input_name :: "ustring option"
  arg_output_names :: "ustring option"
  arg_thread_count :: "ustring option"
  arg_inter_op_parallelism_threads :: "ustring option"
  arg_intra_op_parallelism_threads :: "ustring option"
  arg_kmp_affinity :: "ustring option"
  arg_use_xla :: "ustring option"

record tf_parameters =
  tf_channel_swap :: "ustring option"
  tf_mean :: "ustring option"
  tf_input_scale :: "ustring option"
  tf_input_shape :: "ustring option"
  tf_input_name :: "ustring option"
  tf_output_names :: "ustring option"
  tf_nthreads :: "ustring option"
  tf_num_inter_threads :: "ustring option"
  tf_num_intra_threads :: "ustring option"
  tf_kmp_affinity :: "ustring option"
  tf_use_xla :: "ustring option"

definition blank_parameters :: tf_parameters where
  "blank_parameters =
     \<lparr>tf_channel_swap = None, tf_mean = None, tf_input_scale = None, tf_input_shape = None,
      tf_input_name = None, tf_output_names = None, tf_nthreads = None,
      tf_num_inter_threads = None, tf_num_intra_threads = None, tf_kmp_affinity = None,
      tf_use_xla = None\<rparr>"

text \<open>
  \<^verbatim>\<open>TensorFlowParameters.__init__\<close>: one definition for every \<^verbatim>\<open>if\<close> block of the
  constructor, in the order of the source; \<^verbatim>\<open>self\<close> is the object under construction.
\<close>

definition set_channel_swap :: "checks \<Rightarrow> tf_args \<Rightarrow> tf_parameters \<Rightarrow> error + tf_parameters" where
  "set_channel_swap chk a self =
     (if parameter_is_not_none chk (arg_channel_swap a) then
        (if channel_swap_is_correct chk (arg_channel_swap a)
         then Inr (self\<lparr>tf_channel_swap := arg_channel_swap a\<rparr>)
         else Inl (ValueError ''Channel swap can only take values: list of unique values 0, 1, 2.''))
      else Inr self)"

definition set_mean :: "checks \<Rightarrow> tf_args \<Rightarrow> tf_parameters \<Rightarrow> error + tf_parameters" where
  "set_mean chk a self =
     (if parameter_is_not_none chk (arg_mean a) then
        (if mean_is_correct chk (arg_mean a)
         then Inr (self\<lparr>tf_mean := arg_mean a\<rparr>)
         else Inl (ValueError ''Mean can only take values: list of 3 float elements.''))
      else Inr self)"

definition set_input_scale :: "checks \<Rightarrow> tf_args \<Rightarrow> tf_parameters \<Rightarrow> error + tf_parameters" where
  "set_input_scale chk a self =
     (if parameter_is_not_none chk (arg_input_scale a) then
        (if float_value_is_correct chk (arg_input_scale a)
         then Inr (self\<lparr>tf_input_scale := arg_input_scale a\<rparr>)
         else Inl (ValueError ''Input scale can only take values: float greater than zero.''))
      else Inr self)"

definition set_input_shape :: "checks \<Rightarrow> tf_args \<Rightarrow> tf_parameters \<Rightarrow> error + tf_parameters" where
  "set_input_shape chk a self =
     (if parameter_is_not_none chk (arg_input_shape a) then
        and_then (input_shape_is_correct chk (arg_input_shape a)) (\<lambda>ok.
          if ok then Inr (self\<lparr>tf_input_shape := arg_input_shape a\<rparr>)
          else Inl (ValueError (''Input shape can only take values: ''
                              @ ''list of 3 integer elements greater than zero.'')))
      else Inr self)"

definition set_input_name :: "checks \<Rightarrow> tf_args \<Rightarrow> tf_parameters \<Rightarrow> error + tf_parameters" where
  "set_input_name chk a self =
     (if parameter_is_not_none chk (arg_input_name a)
      then Inr (self\<lparr>tf_input_name := arg_input_name a\<rparr>) else Inr self)"

definition set_output_names :: "checks \<Rightarrow> tf_args \<Rightarrow> tf_parameters \<Rightarrow> error + tf_parameters" where
  "set_output_names chk a self =
     (if parameter_is_not_none chk (arg_output_names a)
      then Inr (self\<lparr>tf_output_names := arg_output_names a\<rparr>) else Inr self)"

definition set_nthreads :: "checks \<Rightarrow> tf_args \<Rightarrow> tf_parameters \<Rightarrow> error + tf_parameters" where
  "set_nthreads chk a self =
     (if parameter_is_not_none chk (arg_thread_count a) then
        (if int_value_is_correct chk (arg_thread_count a)
         then Inr (self\<lparr>tf_nthreads := arg_thread_count a\<rparr>)
         else Inl (ValueError ''Threads count can only take integer value''))
      else Inr self)"

definition set_num_inter_threads :: "checks \<Rightarrow> tf_args \<Rightarrow> tf_parameters \<Rightarrow> error + tf_parameters" where
  "set_num_inter_threads chk a self =
     (if parameter_is_not_none chk (arg_inter_op_parallelism_threads a) then
        (if int_value_is_correct chk (arg_inter_op_parallelism_threads a)
         then Inr (self\<lparr>tf_num_inter_threads := arg_inter_op_parallelism_threads a\<rparr>)
         else Inl (ValueError ''Inter op parallelism threads can only take integer value''))
      else Inr self)"

definition set_num_intra_threads :: "checks \<Rightarrow> tf_args \<Rightarrow> tf_parameters \<Rightarrow> error + tf_parameters" where
  "set_num_intra_threads chk a self =
     (if parameter_is_not_none chk (arg_intra_op_parallelism_threads a) then
        (if int_value_is_correct chk (arg_intra_op_parallelism_threads a)
         then Inr (self\<lparr>tf_num_intra_threads := arg_intra_op_parallelism_threads a\<rparr>)
         else Inl (ValueError ''Intra op parallelism threads can only take integer value''))
      else Inr self)"

definition set_kmp_affinity :: "checks \<Rightarrow> tf_args \<Rightarrow> tf_parameters \<Rightarrow> error + tf_parameters" where
  "set_kmp_affinity chk a self =
     (if parameter_is_not_none chk (arg_kmp_affinity a)
      then Inr (self\<lparr>tf_kmp_affinity := arg_kmp_affinity a\<rparr>) else Inr self)"

definition set_use_xla :: "checks \<Rightarrow> tf_args \<Rightarrow> tf_parameters \<Rightarrow> error + tf_parameters" where
  "set_use_xla chk a self =
     (if parameter_is_not_none chk (arg_use_xla a)
      then Inr (self\<lparr>tf_use_xla := arg_use_xla a\<rparr>) else Inr self)"

definition tf_init :: "checks \<Rightarrow> tf_args \<Rightarrow> error + tf_parameters" where
  "tf_init chk a =
     and_then (set_channel_swap chk a blank_parameters) (\<lambda>self.
     and_then (set_mean chk a self) (\<lambda>self.
     and_then (set_input_scale chk a self) (\<lambda>self.
     and_then (set_input_shape chk a self) (\<lambda>self.
     and_then (set_input_name chk a self) (\<lambda>self.
     and_then (set_output_names chk a self) (\<lambda>self.
     and_then (set_nthreads chk a self) (\<lambda>self.
     and_then (set_num_inter_threads chk a self) (\<lambda>self.
     and_then (set_num_intra_threads chk a self) (\<lambda>self.
     and_then (set_kmp_affinity chk a self) (\<lambda>self.
     set_use_xla chk a self))))))))))"

text \<open>
  The other checked arguments of the constructor pass: each of them is either taken
  as absent or accepted by its check.
\<close>

definition others_pass :: "checks \<Rightarrow> tf_args \<Rightarrow> bool" where
  "others_pass chk a =
     ((\<not> parameter_is_not_none chk (arg_channel_swap a)
         \<or> channel_swap_is_correct chk (arg_channel_swap a))
    \<and> (\<not> parameter_is_not_none chk (arg_mean a) \<or> mean_is_correct chk (arg_mean a))
    \<and> (\<not> parameter_is_not_none chk (arg_input_scale a)
         \<or> float_value_is_correct chk (arg_input_scale a))
    \<and> (\<not> parameter_is_not_none chk (arg_thread_count a)
         \<or> int_value_is_correct chk (arg_thread_count a))
    \<and> (\<not> parameter_is_not_none chk (arg_inter_op_parallelism_threads a)
         \<or> int_value_is_correct chk (arg_inter_op_parallelism_threads a))
    \<and> (\<not> parameter_is_not_none chk (arg_intra_op_parallelism_threads a)
         \<or> int_value_is_correct chk (arg_intra_op_parallelism_threads a)))"

text \<open>
  An instance of the checks for running the constructor: a parameter is present when
  it is not \<^verbatim>\<open>None\<close>, an integer value is a string of decimal digits, and the other
  checks accept every value.
\<close>

definition is_digit :: "nat \<Rightarrow> bool" where
  "is_digit cp = (48 \<le> cp \<and> cp \<le> 57)"

definition present :: "ustring option \<Rightarrow> bool" where
  "present v = (v \<noteq> None)"

definition all_digits :: "ustring option \<Rightarrow> bool" where
  "all_digits v = (case v of None \<Rightarrow> False | Some s \<Rightarrow> list_all is_digit s)"

definition accept_any :: "ustring option \<Rightarrow> bool" where
  "accept_any v = True"

definition digit_checks :: checks where
  "digit_checks =
     \<lparr>parameter_is_not_none = present, channel_swap_is_correct = accept_any,
      mean_is_correct = accept_any, float_value_is_correct = accept_any,
      int_value_is_correct = all_digits\<rparr>"

definition no_args :: tf_args where
  "no_args =
     \<lparr>arg_channel_swap = None, arg_mean = None, arg_input_scale = None,
      arg_input_shape = None, arg_input_name = None, arg_output_names = None,
      arg_thread_count = None, arg_inter_op_parallelism_threads = None,
      arg_intra_op_parallelism_threads = None, arg_kmp_affinity = None,
      arg_use_xla = None\<rparr>"

section \<open>Properties of the token counting\<close>

lemma row_loop_count: "row_loop row d len = len + non_filler d row"
  by (induction row arbitrary: len) (auto simp: non_filler_def)

lemma batch_loop_map:
  "batch_loop g n d acc = acc @ map (\<lambda>row. 1 + non_filler d row - n) g"
  by (induction g arbitrary: acc) (auto simp: row_loop_count)

lemma get_meaning_tokens_map:
  "get_meaning_tokens_from_batch g n d = map (\<lambda>row. 1 + non_filler d row - n) g"
  by (simp add: get_meaning_tokens_from_batch_def batch_loop_map)

text \<open>
  Claim C1. The function returns one integer per batch row, in row order; the value
  of a row is one (the trailing end token) plus the number of its entries different
  from the filler token, minus the prompt length. On the grid
  \<^verbatim>\<open>[[5,7,2,2,2],[5,7,9,2,2]]\<close> with filler token 2 and prompt length 1 the result is
  \<^verbatim>\<open>[2, 3]\<close>.
\<close>

theorem get_meaning_tokens_per_row:
  "get_meaning_tokens_from_batch g input_size dot_token
     = map (\<lambda>row. 1 + int (length (filter (\<lambda>x. x \<noteq> dot_token) row)) - input_size) g
   \<and> length (get_meaning_tokens_from_batch g input_size dot_token) = length g
   \<and> get_meaning_tokens_from_batch [[5, 7, 2, 2, 2], [5, 7, 9, 2, 2]] 1 2 = [2, 3]"
  using get_meaning_tokens_map [of g input_size dot_token]
        get_meaning_tokens_map [of "[[5, 7, 2, 2, 2], [5, 7, 9, 2, 2]]" 1 2]
  by (simp add: non_filler_def)

text \<open>
  Claim C7, as stated, fails: a row whose number of non-filler entries plus one is
  below the prompt length gets a negative count. The row \<^verbatim>\<open>[5, 2, 2, 2]\<close> with
  prompt length 3 yields \<open>- 1\<close>.
\<close>

theorem token_count_negative:
  "get_meaning_tokens_from_batch [[5, 2, 2, 2]] 3 2 = [- 1]
   \<and> \<not> 0 \<le> get_meaning_tokens_from_batch [[5, 2, 2, 2]] 3 2 ! 0"
  by (simp add: get_meaning_tokens_from_batch_def)

text \<open>
  Claim C7, amended. The count of row \<open>i\<close> is non-negative exactly when the prompt
  length is at most one plus the number of non-filler entries of that row; in
  particular every count is at least 1 when the prompt length is 0, as it is for
  speech-to-text.
\<close>

theorem token_count_nonneg_iff:
  "i < length g \<Longrightarrow>
     (0 \<le> get_meaning_tokens_from_batch g input_size dot_token ! i)
       = (input_size \<le> 1 + non_filler dot_token (g ! i))
     \<and> 1 \<le> get_meaning_tokens_from_batch g 0 dot_token ! i"
  by (auto simp: get_meaning_tokens_map non_filler_def)

theorem token_count_nonneg_iff_witness:
  "(0 \<le> get_meaning_tokens_from_batch [[5, 7, 9, 2, 2]] 1 2 ! 0)
     = (1 \<le> 1 + non_filler 2 ([[5, 7, 9, 2, 2]] ! 0))
   \<and> 1 \<le> get_meaning_tokens_from_batch [[5, 7, 9, 2, 2]] 0 2 ! 0"
  using token_count_nonneg_iff [of 0 "[[5, 7, 9, 2, 2]]" 1 2] by simp


section \<open>Properties of the thread configuration\<close>

text \<open>
  The thread count \<^verbatim>\<open>2147483648\<close>, which the command line accepts, is positive and
  passes the validation, but the torch setter raises on it and no setting is applied,
  for the inter-op and for the intra-op parameter; and a second positive inter-op
  count raises too. Claim C9 does not hold as stated.
\<close>

theorem positive_thread_count_raises:
  "fst (set_thread_num (Some 2147483648) None \<lparr>interop_threads = None, intraop_threads = None\<rparr>)
     \<noteq> None
   \<and> snd (set_thread_num (Some 2147483648) None
            \<lparr>interop_threads = None, intraop_threads = None\<rparr>)
     = \<lparr>interop_threads = None, intraop_threads = None\<rparr>
   \<and> fst (set_thread_num None (Some 2147483648)
            \<lparr>interop_threads = None, intraop_threads = None\<rparr>)
     \<noteq> None
   \<and> snd (set_thread_num None (Some 2147483648)
            \<lparr>interop_threads = None, intraop_threads = None\<rparr>)
     = \<lparr>interop_threads = None, intraop_threads = None\<rparr>
   \<and> fst (set_thread_num (Some 4) None \<lparr>interop_threads = Some 2, intraop_threads = None\<rparr>)
     \<noteq> None
   \<and> snd (set_thread_num (Some 4) None \<lparr>interop_threads = Some 2, intraop_threads = None\<rparr>)
     = \<lparr>interop_threads = Some 2, intraop_threads = None\<rparr>"
  by (simp add: set_thread_num_def validate_and_set_def validate_def truthy_int_def
        torch_set_num_interop_threads_def torch_set_num_threads_def fits_c_int_def)

text \<open>
  Claim C9, amended. A negative inter-op or intra-op thread count makes
  \<^verbatim>\<open>set_thread_num\<close> raise \<^verbatim>\<open>ValueError\<close> before the torch setter of that parameter is
  called: the settings stay as they were at that moment. A positive count passes the
  validation and is handed to the torch setter. When the count is below \<open>2\<^sup>3\<^sup>1\<close> (and,
  for the inter-op parameter, the inter-op setting has not been set before) no error
  is raised and the setting is applied; otherwise the torch setter raises, its
  exception is the one that \<^verbatim>\<open>set_thread_num\<close> raises, and the setting is not applied. The two parameters are handled in sequence, inter-op first:
  the intra-op part is reached when the inter-op part did not raise, and it starts
  from the settings that the inter-op part left.
\<close>

theorem set_thread_num_validates_then_sets:
  assumes "n < 0" and "0 < p"
  shows "set_thread_num (Some n) num_intra st
           = (Some (ValueError (''Incorrect thread count: '' @ str_int n)), st)
       \<and> (fst (set_thread_num num_inter None st) = None \<longrightarrow>
            set_thread_num num_inter (Some n) st
              = (Some (ValueError (''Incorrect thread count: '' @ str_int n)),
                 snd (set_thread_num num_inter None st)))
       \<and> (p < 2 ^ 31 \<and> interop_threads st = None \<longrightarrow>
            set_thread_num (Some p) None st = (None, st\<lparr>interop_threads := Some p\<rparr>))
       \<and> (p < 2 ^ 31 \<and> fst (set_thread_num num_inter None st) = None \<longrightarrow>
            set_thread_num num_inter (Some p) st
              = (None, (snd (set_thread_num num_inter None st))\<lparr>intraop_threads := Some p\<rparr>))
       \<and> (2 ^ 31 \<le> p \<or> interop_threads st \<noteq> None \<longrightarrow>
            (\<exists>e. torch_set_num_interop_threads p st = Inl e
                  \<and> set_thread_num (Some p) num_intra st = (Some e, st)))
       \<and> (2 ^ 31 \<le> p \<and> fst (set_thread_num num_inter None st) = None \<longrightarrow>
            (\<exists>e. torch_set_num_threads p (snd (set_thread_num num_inter None st)) = Inl e
                  \<and> set_thread_num num_inter (Some p) st
                      = (Some e, snd (set_thread_num num_inter None st))))"
proof -
  have inter: "set_thread_num num_inter None st
                 = (case validate_and_set torch_set_num_interop_threads num_inter st of
                      Inl e \<Rightarrow> (Some e, st) | Inr st1 \<Rightarrow> (None, st1))"
    by (simp add: set_thread_num_def validate_and_set_def truthy_int_def split: sum.splits)
  have neg: "validate_and_set setter (Some n) s
               = Inl (ValueError (''Incorrect thread count: '' @ str_int n))" for setter s
    using assms(1) by (simp add: validate_and_set_def validate_def truthy_int_def)
  have pos: "validate_and_set setter (Some p) s = setter p s" for setter s
    using assms(2) by (simp add: validate_and_set_def validate_def truthy_int_def)
  have skip: "validate_and_set setter None s = Inr s" for setter s
    by (simp add: validate_and_set_def truthy_int_def)
  show ?thesis
  proof (intro conjI impI)
    show "set_thread_num (Some n) num_intra st
            = (Some (ValueError (''Incorrect thread count: '' @ str_int n)), st)"
      by (simp add: set_thread_num_def neg)
    show "set_thread_num num_inter (Some n) st
            = (Some (ValueError (''Incorrect thread count: '' @ str_int n)),
               snd (set_thread_num num_inter None st))"
      if "fst (set_thread_num num_inter None st) = None"
      using that unfolding inter by (simp add: set_thread_num_def neg split: sum.splits)
    show "set_thread_num (Some p) None st = (None, st\<lparr>interop_threads := Some p\<rparr>)"
      if "p < 2 ^ 31 \<and> interop_threads st = None"
      using that assms(2)
      by (simp add: set_thread_num_def pos skip torch_set_num_interop_threads_def fits_c_int_def)
    show "set_thread_num num_inter (Some p) st
            = (None, (snd (set_thread_num num_inter None st))\<lparr>intraop_threads := Some p\<rparr>)"
      if "p < 2 ^ 31 \<and> fst (set_thread_num num_inter None st) = None"
      using that assms(2) unfolding inter
      by (simp add: set_thread_num_def pos torch_set_num_threads_def fits_c_int_def
            split: sum.splits)
    show "\<exists>e. torch_set_num_interop_threads p st = Inl e
               \<and> set_thread_num (Some p) num_intra st = (Some e, st)"
      if "2 ^ 31 \<le> p \<or> interop_threads st \<noteq> None"
      using that assms(2)
      by (auto simp: set_thread_num_def pos torch_set_num_interop_threads_def fits_c_int_def)
    show "\<exists>e. torch_set_num_threads p (snd (set_thread_num num_inter None st)) = Inl e
               \<and> set_thread_num num_inter (Some p) st
                   = (Some e, snd (set_thread_num num_inter None st))"
      if "2 ^ 31 \<le> p \<and> fst (set_thread_num num_inter None st) = None"
      using that assms(2) unfolding inter
      by (auto simp: set_thread_num_def pos torch_set_num_threads_def fits_c_int_def
            split: sum.splits)
  qed
qed

theorem set_thread_num_validates_then_sets_witness:
  "(- 2 :: int) < 0 \<and> (0 :: int) < 4
   \<and> set_thread_num (Some (- 2)) (Some 3) \<lparr>interop_threads = None, intraop_threads = None\<rparr>
     = (Some (ValueError (''Incorrect thread count: '' @ str_int (- 2))),
        \<lparr>interop_threads = None, intraop_threads = None\<rparr>)
   \<and> set_thread_num (Some 3) (Some (- 2)) \<lparr>interop_threads = None, intraop_threads = None\<rparr>
     = (Some (ValueError (''Incorrect thread count: '' @ str_int (- 2))),
        \<lparr>interop_threads = Some 3, intraop_threads = None\<rparr>)
   \<and> set_thread_num (Some 4) None \<lparr>interop_threads = None, intraop_threads = None\<rparr>
     = (None, \<lparr>interop_threads = Some 4, intraop_threads = None\<rparr>)
   \<and> set_thread_num (Some 3) (Some 4) \<lparr>interop_threads = None, intraop_threads = None\<rparr>
     = (None, \<lparr>interop_threads = Some 3, intraop_threads = Some 4\<rparr>)"
  using set_thread_num_validates_then_sets
          [of "- 2" 4 "Some 3" "\<lparr>interop_threads = None, intraop_threads = None\<rparr>" "Some 3"]
  by (simp add: set_thread_num_def validate_and_set_def validate_def truthy_int_def
        torch_set_num_interop_threads_def torch_set_num_threads_def fits_c_int_def)

section \<open>Running computations of the engine\<close>

lemma ret_run: "ret x w = (Inr x, w)"
  by (simp add: ret_def)

lemma throw_run: "throw e w = (Inl e, w)"
  by (simp add: throw_def)

lemma bnd_ret: "bnd (ret x) f w = f x w"
  by (simp add: bnd_def ret_def)

lemma bnd_throw: "bnd (throw e) f w = (Inl e, w)"
  by (simp add: bnd_def throw_def)

lemma bnd_assoc: "bnd (bnd m f) g w = bnd m (\<lambda>x. bnd (f x) g) w"
  by (simp add: bnd_def split: prod.splits sum.splits)

lemma bnd_if: "bnd (if b then m else n) f w = (if b then bnd m f w else bnd n f w)"
  by simp

lemma lift_run: "lift r w = (r, w)"
  by (simp add: lift_def)

lemma bnd_lift_Inr: "bnd (lift (Inr x)) f w = f x w"
  by (simp add: bnd_def lift_def)

lemma bnd_lift_Inl: "bnd (lift (Inl e)) f w = (Inl e, w)"
  by (simp add: bnd_def lift_def)

lemma bnd_py_time:
  "bnd (py_time c) f w
     = f (clock c (ticks w)) (w\<lparr>events := events w @ [Tick (ticks w)], ticks := Suc (ticks w)\<rparr>)"
  by (simp add: bnd_def py_time_def)

text \<open>Steps on collaborator objects that do not raise.\<close>

lemma try_eval_quiet: "raises c v = None \<Longrightarrow> try_eval c v = Inr v"
  by (simp add: try_eval_def)

lemma bnd_attempt: "raises c v = None \<Longrightarrow> bnd (attempt c v) f w = f v w"
  by (simp add: bnd_def attempt_def lift_def try_eval_def)

lemma bnd_get_slice:
  "raises c (Slice (draws w)) = None \<Longrightarrow>
   bnd (get_slice c) f w
     = f (Slice (draws w)) (w\<lparr>events := events w @ [Drawn (draws w)], draws := Suc (draws w)\<rparr>)"
  by (simp add: bnd_def get_slice_def try_eval_def)

lemma bnd_invoke:
  "raises c (Call g args kwargs) = None \<Longrightarrow>
   bnd (invoke c g args kwargs) f w
     = f (Call g args kwargs) (w\<lparr>events := events w @ [Invoke (Call g args kwargs)]\<rparr>)"
  by (simp add: bnd_def invoke_def try_eval_def)

lemma bnd_cuda_synchronize:
  "raises c (Call (Imported ''torch.cuda.synchronize'') [] []) = None \<Longrightarrow>
   bnd (cuda_synchronize c) f w = f () (w\<lparr>events := events w @ [Synchronize]\<rparr>)"
  by (simp add: bnd_def cuda_synchronize_def)

lemmas run_simps =
  ret_run throw_run lift_run bnd_ret bnd_throw bnd_lift_Inr bnd_lift_Inl bnd_assoc bnd_if
  bnd_py_time bnd_attempt bnd_get_slice bnd_invoke bnd_cuda_synchronize try_eval_quiet Let_def

lemma invoked_append: "invoked (xs @ ys) = invoked xs @ invoked ys"
  by (induction xs rule: invoked.induct) simp_all

lemma invoked_drawn_from: "invoked (drawn_from k names) = []"
  by (induction names arbitrary: k) simp_all


lemma build_inputs_run:
  assumes "\<forall>v. raises c v = None"
  shows "build_inputs c device names w =
     (Inr (tensors_from device (draws w) names),
      w\<lparr>events := events w @ drawn_from (draws w) names, draws := draws w + length names\<rparr>)"
  using assms
  by (induction names arbitrary: w)
     (simp_all add: ret_def bnd_def get_slice_def attempt_def lift_def try_eval_def)

lemma bnd_build_inputs:
  assumes "\<forall>v. raises c v = None"
  shows "bnd (build_inputs c device names) f w =
     f (tensors_from device (draws w) names)
       (w\<lparr>events := events w @ drawn_from (draws w) names, draws := draws w + length names\<rparr>)"
  by (simp add: bnd_def build_inputs_run [OF assms])







text \<open>The first part of \<^verbatim>\<open>inference_pytorch\<close> on task types it has nothing to set up for.\<close>

lemma prepare_run_unrecognized:
  "task_type \<notin> set task_choices \<Longrightarrow> prepare_run c model task_type w = (Inr initial_locals, w)"
  by (simp add: prepare_run_def task_choices_def ret_run)

lemma prepare_run_tensor_tasks:
  "task_type \<in> set [''classification'', ''feedforward'', ''yolo_v7'', ''text-to-image'',
                     ''text-translation'']
     \<Longrightarrow> prepare_run c model task_type w = (Inr initial_locals, w)"
  by (auto simp: prepare_run_def ret_run)

lemma single_shot_softmax:
  assumes "\<forall>v. raises c v = None"
    and "task_type = ''classification'' \<or> task_type = ''feedforward''"
  shows "single_shot c model task_type (Some names) device st w =
     (Inr (Call (Attr (Call (Imported ''torch.nn.functional.softmax'')
                         [Call model (tensors_from device (draws w) names) []]
                         [(''dim'', PInt 1)]) ''to'') [PStr ''cpu''] [],
           [clock c (Suc (ticks w)) - clock c (ticks w)],
           s_num_tokens st, s_audios_lengths st, s_audio_sampling_rate st),
      w\<lparr>events := events w @ drawn_from (draws w) names
                   @ [Tick (ticks w),
                      Invoke (Call model (tensors_from device (draws w) names) []),
                      Tick (Suc (ticks w))],
        ticks := Suc (Suc (ticks w)),
        draws := draws w + length names\<rparr>)"
  using assms
  by (auto simp: single_shot_def single_shot_inputs_def single_shot_call_def tensor_inputs_def
        bnd_build_inputs run_simps)

lemma stub_never_raises: "\<forall>v. raises stub v = None"
  by (simp add: stub_def never_raises_def)


section \<open>Properties of the single-shot path\<close>

text \<open>
  Claim C3. The engine run once on \<^verbatim>\<open>feedforward\<close> with one input name, on
  collaborators that raise nothing and a clock that advances by one per reading: the
  output is \<^verbatim>\<open>softmax(model(*inputs), dim=1).to('cpu')\<close>, as for \<^verbatim>\<open>classification\<close>, and
  not the result \<^verbatim>\<open>model(*inputs)\<close> of the model.
\<close>

theorem feedforward_applies_softmax:
  "map_option fst
     (inference_pytorch stub 0 (Obj ''model'') 1 ''feedforward'' (Some [''input'']) True Cpu 0
        world0)
     = Some (Inr (Call (Attr (Call (Imported ''torch.nn.functional.softmax'')
                               [Call (Obj ''model'')
                                  [torch_tensor (Item (Slice 0) (PStr ''input'')) Cpu] []]
                               [(''dim'', PInt 1)]) ''to'') [PStr ''cpu''] [],
                  [1], [], [], PNone))
   \<and> map_option fst
       (inference_pytorch stub 0 (Obj ''model'') 1 ''feedforward'' (Some [''input'']) True Cpu 0
          world0)
     \<noteq> Some (Inr (Call (Obj ''model'')
                     [torch_tensor (Item (Slice 0) (PStr ''input'')) Cpu] [],
                  [1], [], [], PNone))
   \<and> map_option fst
       (inference_pytorch stub 0 (Obj ''model'') 1 ''classification'' (Some [''input'']) True
          Cpu 0 world0)
     = map_option fst
         (inference_pytorch stub 0 (Obj ''model'') 1 ''feedforward'' (Some [''input'']) True
            Cpu 0 world0)"
  by (simp add: inference_pytorch_def prepare_run_tensor_tasks
        single_shot_softmax [OF stub_never_raises] initial_locals_def)
     (simp add: stub_def unit_clock_def world0_def)

text \<open>
  The same for every model, device, list of input names and collaborators that do
  not raise: \<^verbatim>\<open>classification\<close> and \<^verbatim>\<open>feedforward\<close> both return the softmax of the
  model's result, moved to the host.
\<close>

lemma softmax_for_classification_and_feedforward:
  assumes "\<forall>v. raises c v = None"
    and "task_type = ''classification'' \<or> task_type = ''feedforward''"
  shows "inference_pytorch c fuel model 1 task_type (Some names) inference_mode device
           test_duration w =
     Some (Inr (Call (Attr (Call (Imported ''torch.nn.functional.softmax'')
                              [Call model (tensors_from device (draws w) names) []]
                              [(''dim'', PInt 1)]) ''to'') [PStr ''cpu''] [],
                [clock c (Suc (ticks w)) - clock c (ticks w)], [], [], PNone),
           w\<lparr>events := events w @ drawn_from (draws w) names
                        @ [Tick (ticks w),
                           Invoke (Call model (tensors_from device (draws w) names) []),
                           Tick (Suc (ticks w))],
             ticks := Suc (Suc (ticks w)),
             draws := draws w + length names\<rparr>)"
proof -
  from assms(2) have "prepare_run c model task_type w = (Inr initial_locals, w)"
    by (intro prepare_run_tensor_tasks) auto
  then show ?thesis
    by (simp add: inference_pytorch_def single_shot_softmax [OF assms] initial_locals_def)
qed

text \<open>
  The engine run once on the task type \<^verbatim>\<open>segmentation\<close>, which is not among the
  recognized ones: the run returns, without any error, the output \<^verbatim>\<open>None\<close> and one
  latency, and the only events of the run are the two clock readings. Claim C2 does
  not hold as stated.
\<close>

theorem unrecognized_task_returns:
  "inference_pytorch stub 0 (Obj ''model'') 1 ''segmentation'' (Some [''input'']) True Cpu 0
     world0
   = Some (Inr (PNone, [1], [], [], PNone),
           \<lparr>events = [Tick 0, Tick 1], ticks = 2, draws = 0\<rparr>)"
  by (simp add: inference_pytorch_def prepare_run_def single_shot_def single_shot_inputs_def
        single_shot_call_def run_simps initial_locals_def stub_def unit_clock_def world0_def)

text \<open>
  Claim C2, amended. For a task type outside the recognized ones the engine has no
  unsupported-task error. The single-shot path builds no inputs, invokes nothing and
  returns the output \<^verbatim>\<open>None\<close> with one latency. In the looped path the construction of
  the inputs raises nothing either and leaves them \<^verbatim>\<open>None\<close>; the iteration then fails
  before any model invocation, on a CPU device with the \<^verbatim>\<open>TypeError\<close> of unpacking the
  missing inputs. The unsupported-task \<^verbatim>\<open>ValueError\<close> is raised by \<^verbatim>\<open>prepare_output\<close>,
  when a result is formatted under output names.
\<close>

theorem unrecognized_task_not_rejected:
  assumes "task_type \<notin> set task_choices"
  shows "inference_pytorch c fuel model 1 task_type input_names inference_mode device
           test_duration w
         = Some (Inr (PNone, [clock c (Suc (ticks w)) - clock c (ticks w)], [], [], PNone),
                 w\<lparr>events := events w @ [Tick (ticks w), Tick (Suc (ticks w))],
                   ticks := Suc (Suc (ticks w))\<rparr>)
       \<and> build_plan c device input_names model task_type tokenizer processor w
         = (Inr \<lparr>p_inputs = PNone, p_input_kwarg_name = None, p_model = model,
                 p_audio_length = PNone, p_audio_sampling_rate = PNone\<rparr>, w)
       \<and> (\<exists>e w1. inference_iteration c device input_names model task_type tokenizer
                    processor input_size w = (Inl e, w1)
                  \<and> invoked (events w1) = invoked (events w))
       \<and> (\<exists>msg w1. inference_iteration c Cpu input_names model task_type tokenizer
                      processor input_size w = (Inl (TypeError msg), w1))
       \<and> (output_names \<noteq> None \<and> output_names \<noteq> Some [] \<longrightarrow>
            prepare_output c result output_names task_type
            = Inl (ValueError (''Unsupported task '' @ task_type
                                 @ '' to print inference results'')))"
proof (intro conjI)
  from assms have neq:
    "task_type \<noteq> ''feedforward''" "task_type \<noteq> ''classification''"
    "task_type \<noteq> ''text-to-image''" "task_type \<noteq> ''named-entity-recognition''"
    "task_type \<noteq> ''yolo_v7''" "task_type \<noteq> ''text-generation''"
    "task_type \<noteq> ''batch-text-generation''" "task_type \<noteq> ''text-translation''"
    "task_type \<noteq> ''speech-to-text''"
    by (simp_all add: task_choices_def)
  show "inference_pytorch c fuel model 1 task_type input_names inference_mode device
          test_duration w
        = Some (Inr (PNone, [clock c (Suc (ticks w)) - clock c (ticks w)], [], [], PNone),
                w\<lparr>events := events w @ [Tick (ticks w), Tick (Suc (ticks w))],
                  ticks := Suc (Suc (ticks w))\<rparr>)"
    using neq
    by (simp add: inference_pytorch_def prepare_run_unrecognized [OF assms] single_shot_def
          single_shot_inputs_def single_shot_call_def ret_run bnd_ret bnd_py_time
          initial_locals_def)
  have plan: "build_plan c dev input_names model task_type tokenizer processor v
        = (Inr \<lparr>p_inputs = PNone, p_input_kwarg_name = None, p_model = model,
                p_audio_length = PNone, p_audio_sampling_rate = PNone\<rparr>, v)" for dev v
    using neq by (simp add: build_plan_def ret_run bnd_ret Let_def)
  show "build_plan c device input_names model task_type tokenizer processor w
        = (Inr \<lparr>p_inputs = PNone, p_input_kwarg_name = None, p_model = model,
                p_audio_length = PNone, p_audio_sampling_rate = PNone\<rparr>, w)"
    by (rule plan)
  have body: "infer_slice c dev PNone model None task_type tokenizer v
                = (Inl (TypeError ''argument after * must be an iterable, not NoneType''),
                   v\<lparr>events := events v @ [Tick (ticks v)], ticks := Suc (ticks v)\<rparr>)" for dev v
    using neq
    by (simp add: infer_slice_def get_exec_time_def infer_slice_body_def bnd_py_time bnd_ret
          bnd_assoc bnd_lift_Inl)
  show "\<exists>e w1. inference_iteration c device input_names model task_type tokenizer
                 processor input_size w = (Inl e, w1)
               \<and> invoked (events w1) = invoked (events w)"
  proof (cases "device = Cuda
                \<and> raises c (Call (Imported ''torch.cuda.synchronize'') [] []) \<noteq> None")
    case True
    then show ?thesis
      by (auto simp: inference_iteration_def bnd_def plan cuda_synchronize_def invoked_append)
  next
    case False
    then show ?thesis
      by (cases device)
         (auto simp: inference_iteration_def bnd_def plan body cuda_synchronize_def ret_def
            invoked_append)
  qed
  show "\<exists>msg w1. inference_iteration c Cpu input_names model task_type tokenizer
                   processor input_size w = (Inl (TypeError msg), w1)"
    by (simp add: inference_iteration_def bnd_def plan body ret_def)
  show "output_names \<noteq> None \<and> output_names \<noteq> Some [] \<longrightarrow>
          prepare_output c result output_names task_type
          = Inl (ValueError (''Unsupported task '' @ task_type
                               @ '' to print inference results''))"
    using neq by (cases output_names) (auto simp: prepare_output_def)
qed

theorem unrecognized_task_not_rejected_witness:
  "''segmentation'' \<notin> set task_choices
   \<and> inference_pytorch stub 0 (Obj ''model'') 1 ''segmentation'' None True Cpu 0 world0
     = Some (Inr (PNone, [1], [], [], PNone), \<lparr>events = [Tick 0, Tick 1], ticks = 2, draws = 0\<rparr>)
   \<and> prepare_output stub PNone (Some [''output'']) ''segmentation''
     = Inl (ValueError ''Unsupported task segmentation to print inference results'')"
  using unrecognized_task_not_rejected
          [of "''segmentation''" stub 0 "Obj ''model''" None True Cpu 0 world0 PNone PNone 0
              "Some [''output'']" PNone]
  by (simp add: task_choices_def stub_def unit_clock_def world0_def)









section \<open>Properties of one timed iteration\<close>




section \<open>Properties of the measurement loop\<close>











section \<open>Properties of the formatting\<close>

text \<open>
  Claim C5. When the output names are \<^verbatim>\<open>None\<close> or empty, \<^verbatim>\<open>prepare_output\<close> raises the
  error of the missing output names, for every result and every task type, the
  unrecognized ones included: the check comes before the task type is looked at.
\<close>

theorem prepare_output_requires_names:
  assumes "output_names = None \<or> output_names = Some []"
  shows "prepare_output c result output_names task_type
         = Inl (ValueError (''The number of output tensors does not match ''
                              @ ''the number of corresponding output names''))"
proof -
  from assms have "output_names = None \<or> length (the output_names) = 0"
    by auto
  then show ?thesis
    unfolding prepare_output_def by (rule if_P)
qed

theorem prepare_output_requires_names_witness:
  "(Some [] = (None :: string list option) \<or> Some [] = (Some [] :: string list option))
   \<and> prepare_output stub (Obj ''result'') (Some []) ''segmentation''
     = Inl (ValueError (''The number of output tensors does not match ''
                          @ ''the number of corresponding output names''))
   \<and> prepare_output stub (Obj ''result'') None ''classification''
     = Inl (ValueError (''The number of output tensors does not match ''
                          @ ''the number of corresponding output names''))"
  using prepare_output_requires_names [of "Some []" stub "Obj ''result''" "''segmentation''"]
        prepare_output_requires_names [of None stub "Obj ''result''" "''classification''"]
  by simp

section \<open>Properties of the TensorFlow parameters\<close>

lemma and_then_Inr_iff: "and_then r f = Inr y \<longleftrightarrow> (\<exists>x. r = Inr x \<and> f x = Inr y)"
  by (cases r) (simp_all add: and_then_def)

lemma and_then_Inl_iff:
  "and_then r f = Inl e \<longleftrightarrow> r = Inl e \<or> (\<exists>x. r = Inr x \<and> f x = Inl e)"
  by (cases r) (simp_all add: and_then_def)

lemma shape_tokens_loop_all:
  "shape_tokens_loop chk ts = list_all (\<lambda>t. int_value_is_correct chk (Some t)) ts"
  by (induction ts) simp_all

lemma input_shape_is_correct_spec:
  "input_shape_is_correct chk (Some s) = Inr (three_integer_tokens chk s)"
  by (simp add: input_shape_is_correct_def three_integer_tokens_def shape_tokens_loop_all Let_def)

text \<open>A block that returns has left the field \<^verbatim>\<open>input_shape\<close> as it was.\<close>

lemma set_channel_swap_Inr:
  "set_channel_swap chk a self = Inr p \<Longrightarrow> tf_input_shape p = tf_input_shape self"
  by (auto simp: set_channel_swap_def split: if_splits)

lemma set_mean_Inr:
  "set_mean chk a self = Inr p \<Longrightarrow> tf_input_shape p = tf_input_shape self"
  by (auto simp: set_mean_def split: if_splits)

lemma set_input_scale_Inr:
  "set_input_scale chk a self = Inr p \<Longrightarrow> tf_input_shape p = tf_input_shape self"
  by (auto simp: set_input_scale_def split: if_splits)

lemma set_input_name_Inr:
  "set_input_name chk a self = Inr p \<Longrightarrow> tf_input_shape p = tf_input_shape self"
  by (auto simp: set_input_name_def split: if_splits)

lemma set_output_names_Inr:
  "set_output_names chk a self = Inr p \<Longrightarrow> tf_input_shape p = tf_input_shape self"
  by (auto simp: set_output_names_def split: if_splits)

lemma set_nthreads_Inr:
  "set_nthreads chk a self = Inr p \<Longrightarrow> tf_input_shape p = tf_input_shape self"
  by (auto simp: set_nthreads_def split: if_splits)

lemma set_num_inter_threads_Inr:
  "set_num_inter_threads chk a self = Inr p \<Longrightarrow> tf_input_shape p = tf_input_shape self"
  by (auto simp: set_num_inter_threads_def split: if_splits)

lemma set_num_intra_threads_Inr:
  "set_num_intra_threads chk a self = Inr p \<Longrightarrow> tf_input_shape p = tf_input_shape self"
  by (auto simp: set_num_intra_threads_def split: if_splits)

lemma set_kmp_affinity_Inr:
  "set_kmp_affinity chk a self = Inr p \<Longrightarrow> tf_input_shape p = tf_input_shape self"
  by (auto simp: set_kmp_affinity_def split: if_splits)

lemma set_use_xla_Inr:
  "set_use_xla chk a self = Inr p \<Longrightarrow> tf_input_shape p = tf_input_shape self"
  by (auto simp: set_use_xla_def split: if_splits)

text \<open>A block that raises raises \<^verbatim>\<open>ValueError\<close>, and its argument failed its check.\<close>

lemma set_channel_swap_Inl:
  "set_channel_swap chk a self = Inl e \<Longrightarrow> (\<exists>msg. e = ValueError msg) \<and> \<not> others_pass chk a"
  by (auto simp: set_channel_swap_def others_pass_def split: if_splits)

lemma set_mean_Inl:
  "set_mean chk a self = Inl e \<Longrightarrow> (\<exists>msg. e = ValueError msg) \<and> \<not> others_pass chk a"
  by (auto simp: set_mean_def others_pass_def split: if_splits)

lemma set_input_scale_Inl:
  "set_input_scale chk a self = Inl e \<Longrightarrow> (\<exists>msg. e = ValueError msg) \<and> \<not> others_pass chk a"
  by (auto simp: set_input_scale_def others_pass_def split: if_splits)

lemma set_input_name_Inl: "set_input_name chk a self = Inl e \<Longrightarrow> False"
  by (auto simp: set_input_name_def split: if_splits)

lemma set_output_names_Inl: "set_output_names chk a self = Inl e \<Longrightarrow> False"
  by (auto simp: set_output_names_def split: if_splits)

lemma set_nthreads_Inl:
  "set_nthreads chk a self = Inl e \<Longrightarrow> (\<exists>msg. e = ValueError msg) \<and> \<not> others_pass chk a"
  by (auto simp: set_nthreads_def others_pass_def split: if_splits)

lemma set_num_inter_threads_Inl:
  "set_num_inter_threads chk a self = Inl e
     \<Longrightarrow> (\<exists>msg. e = ValueError msg) \<and> \<not> others_pass chk a"
  by (auto simp: set_num_inter_threads_def others_pass_def split: if_splits)

lemma set_num_intra_threads_Inl:
  "set_num_intra_threads chk a self = Inl e
     \<Longrightarrow> (\<exists>msg. e = ValueError msg) \<and> \<not> others_pass chk a"
  by (auto simp: set_num_intra_threads_def others_pass_def split: if_splits)

lemma set_kmp_affinity_Inl: "set_kmp_affinity chk a self = Inl e \<Longrightarrow> False"
  by (auto simp: set_kmp_affinity_def split: if_splits)

lemma set_use_xla_Inl: "set_use_xla chk a self = Inl e \<Longrightarrow> False"
  by (auto simp: set_use_xla_def split: if_splits)

text \<open>The block of \<^verbatim>\<open>input_shape\<close>, for an argument that is a string and counts as present.\<close>

lemma set_input_shape_present:
  assumes "parameter_is_not_none chk (Some s)" and "arg_input_shape a = Some s"
  shows "set_input_shape chk a self =
           (if three_integer_tokens chk s then Inr (self\<lparr>tf_input_shape := Some s\<rparr>)
            else Inl (ValueError (''Input shape can only take values: ''
                                    @ ''list of 3 integer elements greater than zero.'')))"
  using assms by (simp add: set_input_shape_def input_shape_is_correct_spec and_then_def)

lemma tf_init_chain:
  assumes "tf_init chk a = Inr p"
  shows "\<exists>p3 p4. set_input_shape chk a p3 = Inr p4 \<and> tf_input_shape p = tf_input_shape p4"
proof -
  from assms obtain p1 p2 p3 p4 p5 p6 p7 p8 p9 p10 where
    "set_channel_swap chk a blank_parameters = Inr p1"
    "set_mean chk a p1 = Inr p2"
    "set_input_scale chk a p2 = Inr p3"
    and p4: "set_input_shape chk a p3 = Inr p4"
    and p5: "set_input_name chk a p4 = Inr p5"
    and p6: "set_output_names chk a p5 = Inr p6"
    and p7: "set_nthreads chk a p6 = Inr p7"
    and p8: "set_num_inter_threads chk a p7 = Inr p8"
    and p9: "set_num_intra_threads chk a p8 = Inr p9"
    and p10: "set_kmp_affinity chk a p9 = Inr p10"
    and p11: "set_use_xla chk a p10 = Inr p"
    unfolding tf_init_def and_then_Inr_iff by blast
  have "tf_input_shape p = tf_input_shape p4"
    using set_input_name_Inr [OF p5] set_output_names_Inr [OF p6] set_nthreads_Inr [OF p7]
      set_num_inter_threads_Inr [OF p8] set_num_intra_threads_Inr [OF p9]
      set_kmp_affinity_Inr [OF p10] set_use_xla_Inr [OF p11]
    by simp
  with p4 show ?thesis by blast
qed

lemma tf_init_accepts:
  assumes "parameter_is_not_none chk (Some s)" and "arg_input_shape a = Some s"
    and "tf_init chk a = Inr p"
  shows "three_integer_tokens chk s \<and> tf_input_shape p = Some s"
proof -
  from tf_init_chain [OF assms(3)] obtain p3 p4 where
    p4: "set_input_shape chk a p3 = Inr p4" and eq: "tf_input_shape p = tf_input_shape p4"
    by blast
  from p4 have "three_integer_tokens chk s \<and> tf_input_shape p4 = Some s"
    unfolding set_input_shape_present [OF assms(1,2)] by (auto split: if_splits)
  with eq show ?thesis by simp
qed

lemma tf_init_raises:
  assumes "parameter_is_not_none chk (Some s)" and "arg_input_shape a = Some s"
    and "tf_init chk a = Inl e"
  shows "(\<exists>msg. e = ValueError msg)
         \<and> (others_pass chk a \<longrightarrow>
              \<not> three_integer_tokens chk s
              \<and> e = ValueError (''Input shape can only take values: ''
                                  @ ''list of 3 integer elements greater than zero.''))"
proof -
  have shape: "set_input_shape chk a self = Inl e \<Longrightarrow> ?thesis" for self
    unfolding set_input_shape_present [OF assms(1,2)] by (auto split: if_splits)
  from assms(3) show ?thesis
    unfolding tf_init_def and_then_Inl_iff
    by (elim disjE exE conjE)
       (blast dest: set_channel_swap_Inl set_mean_Inl set_input_scale_Inl shape
          set_input_name_Inl set_output_names_Inl set_nthreads_Inl set_num_inter_threads_Inl
          set_num_intra_threads_Inl set_kmp_affinity_Inl set_use_xla_Inl)+
qed

text \<open>
  Claim C10. Let the argument \<^verbatim>\<open>input_shape\<close> be a string \<open>s\<close> that counts as present.
  A constructor that returns has stored \<open>s\<close> in the field \<^verbatim>\<open>input_shape\<close>, and \<open>s\<close>
  splits on whitespace into exactly three tokens that all pass the integer-value
  check. When \<open>s\<close> does not, the constructor raises \<^verbatim>\<open>ValueError\<close> and builds no object.
  When the other checked arguments pass, the constructor returns with \<open>s\<close> stored if
  and only if \<open>s\<close> is such a string, and otherwise raises the \<^verbatim>\<open>ValueError\<close> of the
  input shape.
\<close>

theorem input_shape_accepted_iff:
  assumes "parameter_is_not_none chk (Some s)" and "arg_input_shape a = Some s"
  shows "(\<forall>p. tf_init chk a = Inr p \<longrightarrow> three_integer_tokens chk s \<and> tf_input_shape p = Some s)
       \<and> (\<not> three_integer_tokens chk s \<longrightarrow> (\<exists>msg. tf_init chk a = Inl (ValueError msg)))
       \<and> (others_pass chk a \<longrightarrow>
            ((\<exists>p. tf_init chk a = Inr p \<and> tf_input_shape p = Some s)
               \<longleftrightarrow> three_integer_tokens chk s)
            \<and> (\<not> three_integer_tokens chk s \<longrightarrow>
                 tf_init chk a = Inl (ValueError (''Input shape can only take values: ''
                                   @ ''list of 3 integer elements greater than zero.''))))"
proof (intro conjI allI impI)
  fix p assume "tf_init chk a = Inr p"
  with tf_init_accepts [OF assms] show "three_integer_tokens chk s"
    and "tf_input_shape p = Some s" by blast+
next
  assume no: "\<not> three_integer_tokens chk s"
  show "\<exists>msg. tf_init chk a = Inl (ValueError msg)"
  proof (cases "tf_init chk a")
    case (Inl e)
    with tf_init_raises [OF assms] show ?thesis by blast
  next
    case (Inr p)
    with tf_init_accepts [OF assms] no show ?thesis by blast
  qed
next
  assume others: "others_pass chk a"
  show "(\<exists>p. tf_init chk a = Inr p \<and> tf_input_shape p = Some s)
          \<longleftrightarrow> three_integer_tokens chk s"
  proof (cases "tf_init chk a")
    case (Inl e)
    with tf_init_raises [OF assms] others show ?thesis by auto
  next
    case (Inr p)
    with tf_init_accepts [OF assms] show ?thesis by auto
  qed
next
  assume others: "others_pass chk a" and no: "\<not> three_integer_tokens chk s"
  show "tf_init chk a = Inl (ValueError (''Input shape can only take values: ''
                               @ ''list of 3 integer elements greater than zero.''))"
  proof (cases "tf_init chk a")
    case (Inl e)
    with tf_init_raises [OF assms] others show ?thesis by auto
  next
    case (Inr p)
    with tf_init_accepts [OF assms] no show ?thesis by blast
  qed
qed

text \<open>
  The constructor on the shapes \<^verbatim>\<open>'1 2 3'\<close> (accepted) and \<^verbatim>\<open>'1 2'\<close> (refused), all other
  arguments \<^verbatim>\<open>None\<close>.
\<close>

theorem input_shape_accepted_iff_witness:
  "parameter_is_not_none digit_checks (Some [49, 32, 50, 32, 51])
   \<and> arg_input_shape (no_args\<lparr>arg_input_shape := Some [49, 32, 50, 32, 51]\<rparr>)
       = Some [49, 32, 50, 32, 51]
   \<and> others_pass digit_checks (no_args\<lparr>arg_input_shape := Some [49, 32, 50, 32, 51]\<rparr>)
   \<and> three_integer_tokens digit_checks [49, 32, 50, 32, 51]
   \<and> (\<exists>p. tf_init digit_checks (no_args\<lparr>arg_input_shape := Some [49, 32, 50, 32, 51]\<rparr>) = Inr p
          \<and> tf_input_shape p = Some [49, 32, 50, 32, 51])
   \<and> \<not> three_integer_tokens digit_checks [49, 32, 50]
   \<and> tf_init digit_checks (no_args\<lparr>arg_input_shape := Some [49, 32, 50]\<rparr>)
       = Inl (ValueError (''Input shape can only take values: ''
                @ ''list of 3 integer elements greater than zero.''))"
  using input_shape_accepted_iff
          [of digit_checks "[49, 32, 50, 32, 51]"
              "no_args\<lparr>arg_input_shape := Some [49, 32, 50, 32, 51]\<rparr>"]
        input_shape_accepted_iff
          [of digit_checks "[49, 32, 50]" "no_args\<lparr>arg_input_shape := Some [49, 32, 50]\<rparr>"]
  by (simp add: digit_checks_def present_def no_args_def others_pass_def
        three_integer_tokens_def str_split_def isspace_def all_digits_def is_digit_def)

end
